theory Spec2Isabelle
  imports Main "HOL-Library.Multiset"
begin

text \<open>
  The webhook framework go-metacontroller, in the revision whose handlers use the
  \<open>composition\<close> package: the HTTP handlers of the sync, customize and finalize hooks and
  \<open>writeError\<close> (\<open>http_handlers.go\<close>), the hook server (\<open>hookserver.go\<close>), the request and
  response types of \<open>composition\<close>, and \<open>KeyForGVK\<close>. The Kubernetes codecs,
  \<open>encoding/json\<close>, \<open>log/slog\<close> and \<open>net/http\<close> are collaborators: what the code reads from
  them is a parameter, what it does to them is recorded. The sync handler of the earlier
  revision (package \<open>controller/composite\<close>) is kept beside it for comparison.
\<close>

section \<open>Values on the wire and in the API\<close>

text \<open>
  \<open>json.RawMessage\<close> and request bodies are byte strings. A Go \<open>error\<close> is modelled by
  the text its \<open>Error()\<close> method returns, which is all the handlers read of it;
  \<open>fmt.Errorf("prefix: %w", err)\<close> is then the prefix followed by that text.
\<close>

type_synonym bytes = string
type_synonym error = string

text \<open>\<open>schema.GroupVersionKind\<close>: three strings, any of which may hold any text.\<close>

record GroupVersionKind =
  Group :: string
  Version :: string
  Kind :: string

text \<open>\<open>schema.GroupVersionResource\<close> and \<open>schema.GroupVersion\<close>.\<close>

record GroupVersionResource =
  gvr_Group :: string
  gvr_Version :: string
  gvr_Resource :: string

record GroupVersion =
  gv_Group :: string
  gv_Version :: string

section \<open>KeyForGVK\<close>

text \<open>
  \<open>KeyForGVK\<close> formats the key with \<open>fmt.Sprintf("%s/%s", ...)\<close> when the group is
  the empty string and with \<open>fmt.Sprintf("%s/%s/%s", ...)\<close> otherwise.
\<close>

definition KeyForGVK :: "GroupVersionKind \<Rightarrow> string" where
  "KeyForGVK gvk =
     (if Group gvk = ''''
      then Version gvk @ ''/'' @ Kind gvk
      else Group gvk @ ''/'' @ Version gvk @ ''/'' @ Kind gvk)"

text \<open>An identifier none of whose three parts contains the separator.\<close>

definition slash_free :: "GroupVersionKind \<Rightarrow> bool" where
  "slash_free gvk =
     (CHR ''/'' \<notin> set (Group gvk) \<and> CHR ''/'' \<notin> set (Version gvk) \<and> CHR ''/'' \<notin> set (Kind gvk))"

section \<open>Logging and HTTP responses\<close>

text \<open>
  The handlers log through \<open>log/slog\<close>. The model records every logging call in order: the
  level, the message and the attributes given as alternating keys and values. The only
  thing read back from a logger is whether a level is enabled.
\<close>

datatype slog_Level = LevelDebug | LevelInfo | LevelWarn | LevelError

record slog_Record =
  level :: slog_Level
  message :: string
  attrs :: "(string \<times> string) list"

record slog_Logger =
  Enabled :: "slog_Level \<Rightarrow> bool"

text \<open>
  What a handler does to its \<open>http.ResponseWriter\<close>:
  \<^item> \<open>HttpError code msg\<close> is the call \<open>http.Error(w, msg, code)\<close>: status \<open>code\<close> and the
    plain-text body \<open>msg\<close>;
  \<^item> \<open>HttpJSON v\<close>: the JSON content type is set and \<open>json.NewEncoder(w).Encode(v)\<close>
    succeeds, so the body is the JSON text of \<open>v\<close>; no status is set, so it is 200;
  \<^item> \<open>HttpUnencoded\<close>: the content type is set and the encoder returns an error, which the
    handler only logs; the status is still 200 and the body is not the JSON text of a
    response;
  \<^item> \<open>HttpPanic\<close> is a run-time panic inside the handler: no response is written.
\<close>

datatype 'a http_Response = HttpError nat string | HttpJSON 'a | HttpUnencoded | HttpPanic

fun status_code :: "'a http_Response \<Rightarrow> nat option" where
  "status_code (HttpError code msg) = Some code"
| "status_code (HttpJSON v) = Some 200"
| "status_code HttpUnencoded = Some 200"
| "status_code HttpPanic = None"

text \<open>
  \<open>writeError\<close> logs the error on the default logger, picks the category text of the
  status code (\<open>http.StatusText\<close> for any other code, a table of the standard library
  taken as the parameter \<open>StatusText\<close>), appends the error text when the given logger has
  the debug level enabled, and calls \<open>http.Error\<close>.
\<close>

definition category :: "(nat \<Rightarrow> string) \<Rightarrow> nat \<Rightarrow> string" where
  "category StatusText code =
     (if code = 400 then ''bad request''
      else if code = 500 then ''internal server error''
      else if code = 405 then ''method not allowed''
      else StatusText code)"

definition writeError ::
  "(nat \<Rightarrow> string) \<Rightarrow> nat \<Rightarrow> error \<Rightarrow> slog_Logger \<Rightarrow> 'a http_Response \<times> slog_Record list" where
  "writeError StatusText code err lg =
     (let msg = category StatusText code;
          msg' = (if Enabled lg LevelDebug then msg @ '': '' @ err else msg)
      in (HttpError code msg',
          [\<lparr>level = LevelError, message = ''Error: '' @ err, attrs = []\<rparr>]))"

section \<open>Hook requests and responses\<close>

text \<open>
  \<open>rawCompositeRequest\<close> mirrors the JSON payload of the sync and finalize hooks. Its
  \<open>Children\<close> field has the Go type \<open>map[string]map[string]json.RawMessage\<close>. A Go map has
  no order of its own, and a \<open>range\<close> statement visits its entries in an order the
  language leaves unspecified; the model lists the entries of the outer map and of each
  inner map in the order in which the handler's \<open>range\<close> statements visit them. The nil map
  of an absent \<open>children\<close> member is the empty list.
\<close>

record rawCompositeRequest =
  rawReq_Parent :: bytes
  rawReq_Children :: "(string \<times> (string \<times> bytes) list) list"
  rawReq_Finalizing :: bool

text \<open>
  \<open>rawCompositeResponse\<close>, with the JSON tags \<open>status\<close>, \<open>children\<close> and \<open>finalized\<close>: the
  struct the sync handler fills and gives to the JSON encoder. Its \<open>Children\<close> map is
  written by key, so it is a partial function.
\<close>

record rawCompositeResponse =
  rawResp_Status :: bytes
  rawResp_Children :: "string \<rightharpoonup> bytes list"
  rawResp_Finalized :: bool

record rawCustomizeRequest =
  rawCust_Controller :: bytes
  rawCust_Parent :: bytes

text \<open>
  Decoded objects (\<open>runtime.Object\<close> values) are the type parameter \<open>'o\<close>. The Child Set
  handed to a handler is the Go map \<open>map[schema.GroupVersionKind][]client.Object\<close> that
  the decode loop fills by key. Reading a key that is absent gives the nil slice.
\<close>

type_synonym 'o ChildSet = "GroupVersionKind \<rightharpoonup> 'o list"

definition lookup_children :: "'o ChildSet \<Rightarrow> GroupVersionKind \<Rightarrow> 'o list" where
  "lookup_children m gvk = (case m gvk of None \<Rightarrow> [] | Some objs \<Rightarrow> objs)"

text \<open>
  Modelled from the spec: \<open>composition/sync.go\<close> is not among the sources. \<open>SyncRequest\<close>
  and \<open>SyncResponse\<close> are the spec's Request and Response of the synchronize hook: the
  request has the fields \<open>syncHandler.ServeHTTP\<close> sets (parent, children, the finalizing
  flag), the response the status and children the handler reads and
  \<open>examples/microservice/main.go\<close> fills, and the spec's finalized flag, which the handler
  does not read. The children of a response are a Go map that the handler ranges over:
  the list holds its entries in the order of that visit.
\<close>

record 'o SyncRequest =
  syncReq_Parent :: 'o
  syncReq_Children :: "'o ChildSet"
  syncReq_Finalizing :: bool

record 'o SyncResponse =
  syncResp_Status :: 'o
  syncResp_Children :: "(GroupVersionKind \<times> 'o list) list"
  syncResp_Finalized :: bool

text \<open>\<open>composition/finalize.go\<close>: neither struct declares JSON tags.\<close>

record 'o FinalizeRequest =
  finReq_Parent :: 'o
  finReq_Children :: "'o ChildSet"

record 'o FinalizeResponse =
  finResp_Status :: 'o
  finResp_Children :: "(GroupVersionKind \<times> 'o list) list"
  finResp_Finalized :: bool

text \<open>\<open>composition/customize.go\<close>. \<open>metav1.LabelSelector\<close> is left opaque.\<close>

typedecl LabelSelector

record 'o CustomizeRequest =
  custReq_Controller :: bytes
  custReq_Parent :: 'o

record ResourceRule =
  APIVersion :: string
  Resource :: string
  LabelSelector :: "LabelSelector option"
  Namespace :: string
  Names :: "string list"

record CustomizeResponse =
  RelatedResources :: "ResourceRule list"

section \<open>The collaborators\<close>

text \<open>
  The Go libraries the handlers call are parameters of the model:
  \<^item> \<open>json.NewDecoder(r.Body).Decode\<close> into each of the two raw request structs;
  \<^item> \<open>json.NewEncoder(w).Encode\<close> of each of the three values the handlers give it, as the
    error it returns (\<open>None\<close> is nil);
  \<^item> \<open>http.StatusText\<close>;
  \<^item> the dynamic type test \<open>childObj.(client.Object)\<close>.
\<close>

record 'o go_env =
  json_Decode_composite :: "bytes \<Rightarrow> error + rawCompositeRequest"
  json_Decode_customize :: "bytes \<Rightarrow> error + rawCustomizeRequest"
  json_Encode_composite :: "rawCompositeResponse \<Rightarrow> error option"
  json_Encode_customize :: "CustomizeResponse option \<Rightarrow> error option"
  json_Encode_finalize :: "'o FinalizeResponse option \<Rightarrow> error option"
  StatusText :: "nat \<Rightarrow> string"
  is_client_Object :: "'o \<Rightarrow> bool"

text \<open>
  A \<open>runtime.Scheme\<close> together with the codec factory \<open>NewHookServer\<close> makes from it:
  \<open>UniversalDecoder().Decode(raw, nil, nil)\<close> returns an object and its kind or an error
  (the handlers dereference the kind whenever there is no error, as the decoder's
  contract allows), \<open>runtime.Encode(LegacyCodec(gv), obj)\<close> returns bytes or an error.
\<close>

record 'o Scheme =
  UniversalDecoder :: "bytes \<Rightarrow> error + ('o \<times> GroupVersionKind)"
  LegacyCodec :: "GroupVersion \<Rightarrow> 'o \<Rightarrow> error + bytes"

record http_Request =
  Method :: string
  Path :: string
  Body :: bytes

text \<open>
  One request served by one handler: the response, the logging calls in order, and the
  requests with which the user's function was called, in order.
\<close>

record ('rq, 'pl) exchange =
  response :: "'pl http_Response"
  logged :: "slog_Record list"
  calls :: "'rq list"

definition finish ::
  "slog_Record list \<Rightarrow> 'rq list \<Rightarrow> 'pl http_Response \<times> slog_Record list \<Rightarrow> ('rq, 'pl) exchange" where
  "finish lg cs wr = \<lparr>response = fst wr, logged = lg @ snd wr, calls = cs\<rparr>"

text \<open>
  The last step of every handler: the value goes to the JSON encoder, and an error of
  the encoder is logged with the record the handler makes of it.
\<close>

definition write_json ::
  "('pl \<Rightarrow> error option) \<Rightarrow> (error \<Rightarrow> slog_Record) \<Rightarrow> 'pl \<Rightarrow> 'pl http_Response \<times> slog_Record list" where
  "write_json encode record v =
     (case encode v of
        None \<Rightarrow> (HttpJSON v, [])
      | Some err \<Rightarrow> (HttpUnencoded, [record err]))"

section \<open>Decoding the observed children\<close>

text \<open>
  The body of the inner loop of the sync and finalize handlers for one raw child. A decode
  error is logged and the child skipped; so is an object that is not a \<open>client.Object\<close>;
  any other object is appended to the bucket of its decoded kind. The two hooks differ in
  the log messages only.
\<close>

definition decodeChild ::
  "(bytes \<Rightarrow> error + ('o \<times> GroupVersionKind)) \<Rightarrow> ('o \<Rightarrow> bool) \<Rightarrow> string \<Rightarrow> string \<Rightarrow> bytes
    \<Rightarrow> 'o ChildSet \<times> slog_Record list \<Rightarrow> 'o ChildSet \<times> slog_Record list" where
  "decodeChild dec isObj msgDecode msgAssert rawChild st =
     (case dec rawChild of
        Inl err \<Rightarrow>
          (fst st, snd st @ [\<lparr>level = LevelError, message = msgDecode,
                               attrs = [(''error'', err), (''child'', rawChild)]\<rparr>])
      | Inr (childObj, childGVK) \<Rightarrow>
          if \<not> isObj childObj
          then (fst st, snd st @ [\<lparr>level = LevelError, message = msgAssert,
                                    attrs = [(''child'', rawChild)]\<rparr>])
          else ((fst st)(childGVK \<mapsto> lookup_children (fst st) childGVK @ [childObj]), snd st))"

fun decodeList ::
  "(bytes \<Rightarrow> error + ('o \<times> GroupVersionKind)) \<Rightarrow> ('o \<Rightarrow> bool) \<Rightarrow> string \<Rightarrow> string
    \<Rightarrow> (string \<times> bytes) list \<Rightarrow> 'o ChildSet \<times> slog_Record list \<Rightarrow> 'o ChildSet \<times> slog_Record list" where
  "decodeList dec isObj msgDecode msgAssert [] st = st"
| "decodeList dec isObj msgDecode msgAssert ((name, rawChild) # rawList) st =
     decodeList dec isObj msgDecode msgAssert rawList
       (decodeChild dec isObj msgDecode msgAssert rawChild st)"

fun decodeChildren ::
  "(bytes \<Rightarrow> error + ('o \<times> GroupVersionKind)) \<Rightarrow> ('o \<Rightarrow> bool) \<Rightarrow> string \<Rightarrow> string
    \<Rightarrow> (string \<times> (string \<times> bytes) list) list \<Rightarrow> 'o ChildSet \<times> slog_Record list
    \<Rightarrow> 'o ChildSet \<times> slog_Record list" where
  "decodeChildren dec isObj msgDecode msgAssert [] st = st"
| "decodeChildren dec isObj msgDecode msgAssert ((key, rawList) # children) st =
     decodeChildren dec isObj msgDecode msgAssert children
       (decodeList dec isObj msgDecode msgAssert rawList st)"

text \<open>
  Reference notions for stating what the loops compute: the raw children of a request
  flattened in the order listed; the children among some blobs that decode to a
  \<open>client.Object\<close> of a given kind, in order; the children that are skipped; and the log
  record a skipped child leaves.
\<close>

definition blobs_of :: "(string \<times> (string \<times> bytes) list) list \<Rightarrow> bytes list" where
  "blobs_of children = concat (map (\<lambda>entry. map snd (snd entry)) children)"

definition decodes_as ::
  "(bytes \<Rightarrow> error + ('o \<times> GroupVersionKind)) \<Rightarrow> ('o \<Rightarrow> bool) \<Rightarrow> GroupVersionKind \<Rightarrow> bytes \<Rightarrow> 'o option" where
  "decodes_as dec isObj gvk raw =
     (case dec raw of
        Inl err \<Rightarrow> None
      | Inr (obj, g) \<Rightarrow> if isObj obj \<and> g = gvk then Some obj else None)"

definition decoded_children ::
  "(bytes \<Rightarrow> error + ('o \<times> GroupVersionKind)) \<Rightarrow> ('o \<Rightarrow> bool) \<Rightarrow> GroupVersionKind \<Rightarrow> bytes list \<Rightarrow> 'o list" where
  "decoded_children dec isObj gvk blobs = List.map_filter (decodes_as dec isObj gvk) blobs"

definition malformed ::
  "(bytes \<Rightarrow> error + ('o \<times> GroupVersionKind)) \<Rightarrow> ('o \<Rightarrow> bool) \<Rightarrow> bytes \<Rightarrow> bool" where
  "malformed dec isObj raw =
     (case dec raw of Inl err \<Rightarrow> True | Inr (obj, g) \<Rightarrow> \<not> isObj obj)"

definition skip_records ::
  "(bytes \<Rightarrow> error + ('o \<times> GroupVersionKind)) \<Rightarrow> ('o \<Rightarrow> bool) \<Rightarrow> string \<Rightarrow> string \<Rightarrow> bytes
    \<Rightarrow> slog_Record list" where
  "skip_records dec isObj msgDecode msgAssert raw =
     (case dec raw of
        Inl err \<Rightarrow> [\<lparr>level = LevelError, message = msgDecode,
                      attrs = [(''error'', err), (''child'', raw)]\<rparr>]
      | Inr (obj, g) \<Rightarrow>
          if isObj obj then []
          else [\<lparr>level = LevelError, message = msgAssert, attrs = [(''child'', raw)]\<rparr>])"


text \<open>
  Two listings of the same Go map of maps: the same keys, and under each key the same
  entries, in any order. The wire lists the children in one order; the handler's
  \<open>range\<close> statements may visit them in any other.
\<close>

definition same_entries ::
  "(string \<times> (string \<times> bytes) list) list \<Rightarrow> (string \<times> (string \<times> bytes) list) list \<Rightarrow> bool" where
  "same_entries wire visit =
     (mset (map (\<lambda>entry. (fst entry, mset (snd entry))) wire)
        = mset (map (\<lambda>entry. (fst entry, mset (snd entry))) visit))"

section \<open>Encoding the desired children\<close>

text \<open>
  The loops that encode the children of a sync response: the first object that fails to
  encode ends the request; otherwise the list of one kind is stored under its key.
\<close>

fun encodeList :: "('o \<Rightarrow> error + bytes) \<Rightarrow> 'o list \<Rightarrow> bytes list \<Rightarrow> error + bytes list" where
  "encodeList enc [] rawList = Inr rawList"
| "encodeList enc (obj # objs) rawList =
     (case enc obj of
        Inl err \<Rightarrow> Inl err
      | Inr data \<Rightarrow> encodeList enc objs (rawList @ [data]))"

fun encodeChildren ::
  "('o \<Rightarrow> error + bytes) \<Rightarrow> (GroupVersionKind \<times> 'o list) list \<Rightarrow> (string \<rightharpoonup> bytes list)
    \<Rightarrow> error + (string \<rightharpoonup> bytes list)" where
  "encodeChildren enc [] desiredChildren = Inr desiredChildren"
| "encodeChildren enc ((gvk, objs) # children) desiredChildren =
     (case encodeList enc objs [] of
        Inl err \<Rightarrow> Inl err
      | Inr rawList \<Rightarrow> encodeChildren enc children (desiredChildren(KeyForGVK gvk \<mapsto> rawList)))"

section \<open>The three handlers\<close>

text \<open>
  The handler structs. \<open>P\<close> is the type parameter of the Go struct, kept as the dynamic
  type test \<open>p.(P)\<close>. The user's function returns an error or a pointer to a response,
  which may be nil (\<open>None\<close>); it is given the scheme and the typed request.
\<close>

record 'o syncHandler =
  sh_scheme :: "'o Scheme"
  sh_decoder :: "bytes \<Rightarrow> error + ('o \<times> GroupVersionKind)"
  sh_encoder :: "'o \<Rightarrow> error + bytes"
  sh_syncer :: "'o Scheme \<Rightarrow> 'o SyncRequest \<Rightarrow> error + 'o SyncResponse option"
  sh_logger :: slog_Logger
  sh_P :: "'o \<Rightarrow> bool"

record 'o customizeHandler =
  ch_scheme :: "'o Scheme"
  ch_decoder :: "bytes \<Rightarrow> error + ('o \<times> GroupVersionKind)"
  ch_customizer :: "'o Scheme \<Rightarrow> 'o CustomizeRequest \<Rightarrow> error + CustomizeResponse option"
  ch_logger :: slog_Logger
  ch_P :: "'o \<Rightarrow> bool"

record 'o finalizeHandler =
  fh_scheme :: "'o Scheme"
  fh_decoder :: "bytes \<Rightarrow> error + ('o \<times> GroupVersionKind)"
  fh_finalizer :: "'o Scheme \<Rightarrow> 'o FinalizeRequest \<Rightarrow> error + 'o FinalizeResponse option"
  fh_logger :: slog_Logger
  fh_P :: "'o \<Rightarrow> bool"

text \<open>
  \<open>syncHandler.ServeHTTP\<close>. A nil response without an error panics at \<open>resp.Status\<close>. The
  response struct is built from the encoded status and children only; its \<open>Finalized\<close>
  field keeps the zero value.
\<close>

definition syncHandler_ServeHTTP ::
  "'o go_env \<Rightarrow> 'o syncHandler \<Rightarrow> http_Request \<Rightarrow> ('o SyncRequest, rawCompositeResponse) exchange" where
  "syncHandler_ServeHTTP env sh r =
     (case json_Decode_composite env (Body r) of
        Inl err \<Rightarrow>
          finish [] [] (writeError (StatusText env) 400
            (''SyncHook: error decoding request: '' @ err) (sh_logger sh))
      | Inr rawReq \<Rightarrow>
          (case sh_decoder sh (rawReq_Parent rawReq) of
             Inl err \<Rightarrow>
               finish [] [] (writeError (StatusText env) 400
                 (''SyncHook: error decoding parent: '' @ err) (sh_logger sh))
           | Inr (p, pgvk) \<Rightarrow>
               if \<not> sh_P sh p
               then finish [] [] (writeError (StatusText env) 400
                      ''SyncHook: type assertion failure: parent'' (sh_logger sh))
               else
                 let observed = decodeChildren (sh_decoder sh) (is_client_Object env)
                       ''SyncHook: error decoding child''
                       ''SyncHook: type assertion failure: child is not a client.Object''
                       (rawReq_Children rawReq) (Map.empty, []);
                     req = \<lparr>syncReq_Parent = p, syncReq_Children = fst observed,
                            syncReq_Finalizing = rawReq_Finalizing rawReq\<rparr>
                 in (case sh_syncer sh (sh_scheme sh) req of
                       Inl err \<Rightarrow>
                         finish (snd observed) [req] (writeError (StatusText env) 500
                           (''SyncHook: handler error: '' @ err) (sh_logger sh))
                     | Inr None \<Rightarrow>
                         \<lparr>response = HttpPanic, logged = snd observed, calls = [req]\<rparr>
                     | Inr (Some resp) \<Rightarrow>
                         (case sh_encoder sh (syncResp_Status resp) of
                            Inl err \<Rightarrow>
                              finish (snd observed) [req] (writeError (StatusText env) 500
                                (''SyncHook: error encoding status: '' @ err) (sh_logger sh))
                          | Inr statusBytes \<Rightarrow>
                              (case encodeChildren (sh_encoder sh) (syncResp_Children resp) Map.empty of
                                 Inl err \<Rightarrow>
                                   finish (snd observed) [req] (writeError (StatusText env) 500
                                     (''SyncHook: error encoding child: '' @ err) (sh_logger sh))
                               | Inr desiredChildren \<Rightarrow>
                                   finish (snd observed) [req]
                                     (write_json (json_Encode_composite env)
                                        (\<lambda>err. \<lparr>level = LevelError,
                                           message = ''SyncHook: error encoding response: '' @ err,
                                           attrs = []\<rparr>)
                                        \<lparr>rawResp_Status = statusBytes,
                                         rawResp_Children = desiredChildren,
                                         rawResp_Finalized = False\<rparr>))))))"

text \<open>
  \<open>customizeHandler.ServeHTTP\<close>: the user's response goes to the JSON encoder as it is
  (a nil pointer included).
\<close>

definition customizeHandler_ServeHTTP ::
  "'o go_env \<Rightarrow> 'o customizeHandler \<Rightarrow> http_Request
    \<Rightarrow> ('o CustomizeRequest, CustomizeResponse option) exchange" where
  "customizeHandler_ServeHTTP env ch r =
     (case json_Decode_customize env (Body r) of
        Inl err \<Rightarrow>
          finish [] [] (writeError (StatusText env) 400
            (''CustomizeHook: error decoding request: '' @ err) (ch_logger ch))
      | Inr rawReq \<Rightarrow>
          (case ch_decoder ch (rawCust_Parent rawReq) of
             Inl err \<Rightarrow>
               finish [] [] (writeError (StatusText env) 400
                 (''CustomizeHook: error decoding parent: '' @ err) (ch_logger ch))
           | Inr (p, pgvk) \<Rightarrow>
               if \<not> ch_P ch p
               then finish [] [] (writeError (StatusText env) 400
                      ''CustomizeHook: type assertion failure for parent'' (ch_logger ch))
               else
                 let req = \<lparr>custReq_Controller = rawCust_Controller rawReq, custReq_Parent = p\<rparr>
                 in (case ch_customizer ch (ch_scheme ch) req of
                       Inl err \<Rightarrow>
                         finish [] [req] (writeError (StatusText env) 500
                           (''CustomizeHook: CustomizeHandler failed with error: '' @ err)
                           (ch_logger ch))
                     | Inr resp \<Rightarrow>
                         finish [] [req]
                           (write_json (json_Encode_customize env)
                              (\<lambda>err. \<lparr>level = LevelError,
                                 message = ''CustomizeHook: error encoding response'',
                                 attrs = [(''error'', err)]\<rparr>)
                              resp))))"

text \<open>
  \<open>finalizeHandler.ServeHTTP\<close>. The children are decoded into \<open>observedChildren\<close> as in the
  sync handler, but the request given to the finalizer is built from the parent alone,
  so its \<open>Children\<close> field is the nil map. The finalizer's response struct goes to the
  JSON encoder as it is: no status or child is encoded with the scheme's encoder (the
  handler has none) and no \<open>rawCompositeResponse\<close> is built.
\<close>

definition finalizeHandler_ServeHTTP ::
  "'o go_env \<Rightarrow> 'o finalizeHandler \<Rightarrow> http_Request
    \<Rightarrow> ('o FinalizeRequest, 'o FinalizeResponse option) exchange" where
  "finalizeHandler_ServeHTTP env fh r =
     (case json_Decode_composite env (Body r) of
        Inl err \<Rightarrow>
          finish [] [] (writeError (StatusText env) 400
            (''FinalizeHook: error decoding request: '' @ err) (fh_logger fh))
      | Inr rawReq \<Rightarrow>
          (case fh_decoder fh (rawReq_Parent rawReq) of
             Inl err \<Rightarrow>
               finish [] [] (writeError (StatusText env) 400
                 (''FinalizeHook: error decoding parent: '' @ err) (fh_logger fh))
           | Inr (p, pgvk) \<Rightarrow>
               if \<not> fh_P fh p
               then finish [] [] (writeError (StatusText env) 400
                      ''FinalizeHook: type assertion failure for parent'' (fh_logger fh))
               else
                 let observed = decodeChildren (fh_decoder fh) (is_client_Object env)
                       ''Finalize error: unable to decoding child''
                       ''Finalize error: child is not a client.Object''
                       (rawReq_Children rawReq) (Map.empty, []);
                     req = \<lparr>finReq_Parent = p, finReq_Children = Map.empty\<rparr>
                 in (case fh_finalizer fh (fh_scheme fh) req of
                       Inl err \<Rightarrow>
                         finish (snd observed) [req] (writeError (StatusText env) 500
                           (''FinalizeHook: FinalizeHandler failed with error: '' @ err)
                           (fh_logger fh))
                     | Inr resp \<Rightarrow>
                         finish (snd observed) [req]
                           (write_json (json_Encode_finalize env)
                              (\<lambda>err. \<lparr>level = LevelError,
                                 message = ''Finalize error: unable to encode response'',
                                 attrs = [(''error'', err)]\<rparr>)
                              resp))))"

section \<open>The earlier sync handler\<close>

text \<open>
  The earlier revision of \<open>http_handlers.go\<close>, whose sync handler serves the function type
  \<open>composite.SyncHandler\<close> of the package \<open>controller/composite\<close>. It differs from the
  handler above in three ways: the children arrive as \<open>map[string][]json.RawMessage\<close>
  (the lists under a key keep their order, the keys are visited in any order); the two
  records logged for a skipped child are shaped differently; and the user's function
  returns a \<open>CompositeResponse\<close> with a \<open>Finalized\<close> field, which the handler copies into
  the wire struct. \<open>composite.SyncRequest\<close> has the fields of \<open>composition.SyncRequest\<close>.
\<close>

record earlier_rawCompositeRequest =
  erawReq_Parent :: bytes
  erawReq_Children :: "(string \<times> bytes list) list"
  erawReq_Finalizing :: bool

record 'o CompositeResponse =
  compResp_Status :: 'o
  compResp_Children :: "(GroupVersionKind \<times> 'o list) list"
  compResp_Finalized :: bool

record 'o earlier_syncHandler =
  esh_scheme :: "'o Scheme"
  esh_decoder :: "bytes \<Rightarrow> error + ('o \<times> GroupVersionKind)"
  esh_encoder :: "'o \<Rightarrow> error + bytes"
  esh_handler :: "'o Scheme \<Rightarrow> 'o SyncRequest \<Rightarrow> error + 'o CompositeResponse option"
  esh_logger :: slog_Logger
  esh_debug :: bool
  esh_P :: "'o \<Rightarrow> bool"

definition earlier_decodeChild ::
  "(bytes \<Rightarrow> error + ('o \<times> GroupVersionKind)) \<Rightarrow> ('o \<Rightarrow> bool) \<Rightarrow> bytes
    \<Rightarrow> 'o ChildSet \<times> slog_Record list \<Rightarrow> 'o ChildSet \<times> slog_Record list" where
  "earlier_decodeChild dec isObj rawChild st =
     (case dec rawChild of
        Inl err \<Rightarrow>
          (fst st, snd st @ [\<lparr>level = LevelError,
                               message = ''SyncHook: error decoding child: '' @ err,
                               attrs = [(''child'', rawChild)]\<rparr>])
      | Inr (childObj, childGVK) \<Rightarrow>
          if \<not> isObj childObj
          then (fst st, snd st @ [\<lparr>level = LevelError,
                                    message = ''SyncHook: type assertion failure for child'',
                                    attrs = [(''child'', rawChild)]\<rparr>])
          else ((fst st)(childGVK \<mapsto> lookup_children (fst st) childGVK @ [childObj]), snd st))"

fun earlier_decodeList ::
  "(bytes \<Rightarrow> error + ('o \<times> GroupVersionKind)) \<Rightarrow> ('o \<Rightarrow> bool) \<Rightarrow> bytes list
    \<Rightarrow> 'o ChildSet \<times> slog_Record list \<Rightarrow> 'o ChildSet \<times> slog_Record list" where
  "earlier_decodeList dec isObj [] st = st"
| "earlier_decodeList dec isObj (rawChild # rawList) st =
     earlier_decodeList dec isObj rawList (earlier_decodeChild dec isObj rawChild st)"

fun earlier_decodeChildren ::
  "(bytes \<Rightarrow> error + ('o \<times> GroupVersionKind)) \<Rightarrow> ('o \<Rightarrow> bool) \<Rightarrow> (string \<times> bytes list) list
    \<Rightarrow> 'o ChildSet \<times> slog_Record list \<Rightarrow> 'o ChildSet \<times> slog_Record list" where
  "earlier_decodeChildren dec isObj [] st = st"
| "earlier_decodeChildren dec isObj ((key, rawList) # children) st =
     earlier_decodeChildren dec isObj children (earlier_decodeList dec isObj rawList st)"

definition earlier_syncHandler_ServeHTTP ::
  "(bytes \<Rightarrow> error + earlier_rawCompositeRequest) \<Rightarrow> 'o go_env \<Rightarrow> 'o earlier_syncHandler
    \<Rightarrow> http_Request \<Rightarrow> ('o SyncRequest, rawCompositeResponse) exchange" where
  "earlier_syncHandler_ServeHTTP json_Decode env sh r =
     (case json_Decode (Body r) of
        Inl err \<Rightarrow>
          finish [] [] (writeError (StatusText env) 400
            (''SyncHook: error decoding request: '' @ err) (esh_logger sh))
      | Inr rawReq \<Rightarrow>
          (case esh_decoder sh (erawReq_Parent rawReq) of
             Inl err \<Rightarrow>
               finish [] [] (writeError (StatusText env) 400
                 (''SyncHook: error decoding parent: '' @ err) (esh_logger sh))
           | Inr (p, pgvk) \<Rightarrow>
               if \<not> esh_P sh p
               then finish [] [] (writeError (StatusText env) 400
                      ''SyncHook: type assertion failure for parent'' (esh_logger sh))
               else
                 let observed = earlier_decodeChildren (esh_decoder sh) (is_client_Object env)
                       (erawReq_Children rawReq) (Map.empty, []);
                     req = \<lparr>syncReq_Parent = p, syncReq_Children = fst observed,
                            syncReq_Finalizing = erawReq_Finalizing rawReq\<rparr>
                 in (case esh_handler sh (esh_scheme sh) req of
                       Inl err \<Rightarrow>
                         finish (snd observed) [req] (writeError (StatusText env) 500
                           (''SyncHook: handler error: '' @ err) (esh_logger sh))
                     | Inr None \<Rightarrow>
                         \<lparr>response = HttpPanic, logged = snd observed, calls = [req]\<rparr>
                     | Inr (Some resp) \<Rightarrow>
                         (case esh_encoder sh (compResp_Status resp) of
                            Inl err \<Rightarrow>
                              finish (snd observed) [req] (writeError (StatusText env) 500
                                (''SyncHook: error encoding status: '' @ err) (esh_logger sh))
                          | Inr statusBytes \<Rightarrow>
                              (case encodeChildren (esh_encoder sh) (compResp_Children resp) Map.empty of
                                 Inl err \<Rightarrow>
                                   finish (snd observed) [req] (writeError (StatusText env) 500
                                     (''SyncHook: error encoding child: '' @ err) (esh_logger sh))
                               | Inr desiredChildren \<Rightarrow>
                                   finish (snd observed) [req]
                                     (write_json (json_Encode_composite env)
                                        (\<lambda>err. \<lparr>level = LevelError,
                                           message = ''SyncHook: error encoding response: '' @ err,
                                           attrs = []\<rparr>)
                                        \<lparr>rawResp_Status = statusBytes,
                                         rawResp_Children = desiredChildren,
                                         rawResp_Finalized = compResp_Finalized resp\<rparr>))))))"

section \<open>The hook server\<close>

text \<open>
  The handlers the server registers, as values of the interface \<open>http.Handler\<close>.
\<close>

datatype 'o Handler =
  SyncHandler "'o syncHandler"
| CustomizeHandler "'o customizeHandler"
| FinalizeHandler "'o finalizeHandler"

record http_Server =
  srv_Addr :: string

text \<open>
  \<open>HookServer\<close>. The multiplexer is the list of the registered patterns with their
  handlers; \<open>hs_server\<close> is the pointer that is nil until \<open>ListenAndServe\<close> sets it. The
  field \<open>hs_log\<close> is not a field of the Go struct: it collects the logging calls the
  server's own functions make.
\<close>

record 'o HookServer =
  hs_addr :: string
  hs_scheme :: "'o Scheme"
  hs_mux :: "(string \<times> 'o Handler) list"
  hs_server :: "http_Server option"
  hs_logger :: slog_Logger
  hs_debug :: bool
  hs_log :: "slog_Record list"

text \<open>
  An \<open>Option\<close> changes the server in place. \<open>ServeMux.Handle\<close> panics when the pattern is
  already registered, so an option may fail (\<open>None\<close>).
\<close>

type_synonym 'o Option = "'o HookServer \<Rightarrow> 'o HookServer option"

definition mux_Handle :: "string \<Rightarrow> 'o Handler \<Rightarrow> 'o Option" where
  "mux_Handle pattern h hs =
     (if pattern \<in> set (map fst (hs_mux hs)) then None
      else Some (hs\<lparr>hs_mux := hs_mux hs @ [(pattern, h)]\<rparr>))"

fun apply_options :: "'o Option list \<Rightarrow> 'o Option" where
  "apply_options [] hs = Some hs"
| "apply_options (opt # opts) hs =
     (case opt hs of None \<Rightarrow> None | Some hs' \<Rightarrow> apply_options opts hs')"

definition NewHookServer :: "slog_Logger \<Rightarrow> 'o Scheme \<Rightarrow> 'o Option list \<Rightarrow> 'o HookServer option" where
  "NewHookServer slog_Default scheme opts =
     apply_options opts
       \<lparr>hs_addr = '':8080'', hs_scheme = scheme, hs_mux = [], hs_server = None,
        hs_logger = slog_Default, hs_debug = False, hs_log = []\<rparr>"

definition Addr :: "string \<Rightarrow> 'o Option" where
  "Addr a hs = Some (hs\<lparr>hs_addr := a\<rparr>)"

definition Logger :: "slog_Logger \<Rightarrow> 'o Option" where
  "Logger lg hs = Some (hs\<lparr>hs_logger := lg\<rparr>)"

definition CompositeController :: "'o Option list \<Rightarrow> 'o Option" where
  "CompositeController hooks hs = apply_options hooks hs"

text \<open>
  \<open>gvr.GroupResource().String()\<close> and \<open>gvr.String()\<close> of the apimachinery library, and the
  path of a hook: \<open>/hooks/<hook>/<resource>[.<group>]/<version>\<close>.
\<close>

definition GroupResource_String :: "GroupVersionResource \<Rightarrow> string" where
  "GroupResource_String gvr =
     (if gvr_Group gvr = [] then gvr_Resource gvr else gvr_Resource gvr @ ''.'' @ gvr_Group gvr)"

definition gvr_String :: "GroupVersionResource \<Rightarrow> string" where
  "gvr_String gvr = gvr_Group gvr @ ''/'' @ gvr_Version gvr @ '', Resource='' @ gvr_Resource gvr"

definition hook_path :: "string \<Rightarrow> GroupVersionResource \<Rightarrow> string" where
  "hook_path hook gvr = ''/hooks/'' @ hook @ ''/'' @ GroupResource_String gvr @ ''/'' @ gvr_Version gvr"

definition registered :: "string \<Rightarrow> string \<Rightarrow> GroupVersionResource \<Rightarrow> 'o HookServer \<Rightarrow> 'o HookServer" where
  "registered text path gvr hs =
     hs\<lparr>hs_log := hs_log hs @
        [\<lparr>level = LevelInfo, message = text, attrs = [(path, gvr_String gvr)]\<rparr>]\<rparr>"

definition SyncHook ::
  "('o \<Rightarrow> bool) \<Rightarrow> GroupVersionResource
    \<Rightarrow> ('o Scheme \<Rightarrow> 'o SyncRequest \<Rightarrow> error + 'o SyncResponse option) \<Rightarrow> 'o Option" where
  "SyncHook P gvr syncer hs =
     (let path = hook_path ''sync'' gvr in
      case mux_Handle (''POST '' @ path)
             (SyncHandler \<lparr>sh_scheme = hs_scheme hs,
                            sh_decoder = UniversalDecoder (hs_scheme hs),
                            sh_encoder = LegacyCodec (hs_scheme hs)
                              \<lparr>gv_Group = gvr_Group gvr, gv_Version = gvr_Version gvr\<rparr>,
                            sh_syncer = syncer, sh_logger = hs_logger hs, sh_P = P\<rparr>) hs of
        None \<Rightarrow> None
      | Some hs' \<Rightarrow> Some (registered ''Registered sync hook at %q for %q'' path gvr hs'))"

definition FinalizeHook ::
  "('o \<Rightarrow> bool) \<Rightarrow> GroupVersionResource
    \<Rightarrow> ('o Scheme \<Rightarrow> 'o FinalizeRequest \<Rightarrow> error + 'o FinalizeResponse option) \<Rightarrow> 'o Option" where
  "FinalizeHook P gvr finalizer hs =
     (let path = hook_path ''finalize'' gvr in
      case mux_Handle (''POST '' @ path)
             (FinalizeHandler \<lparr>fh_scheme = hs_scheme hs,
                                fh_decoder = UniversalDecoder (hs_scheme hs),
                                fh_finalizer = finalizer, fh_logger = hs_logger hs, fh_P = P\<rparr>) hs of
        None \<Rightarrow> None
      | Some hs' \<Rightarrow> Some (registered ''Registered finalize hook at %q for %q'' path gvr hs'))"

definition CustomizeHook ::
  "('o \<Rightarrow> bool) \<Rightarrow> GroupVersionResource
    \<Rightarrow> ('o Scheme \<Rightarrow> 'o CustomizeRequest \<Rightarrow> error + CustomizeResponse option) \<Rightarrow> 'o Option" where
  "CustomizeHook P gvr customizer hs =
     (let path = hook_path ''customize'' gvr in
      case mux_Handle (''POST '' @ path)
             (CustomizeHandler \<lparr>ch_scheme = hs_scheme hs,
                                 ch_decoder = UniversalDecoder (hs_scheme hs),
                                 ch_customizer = customizer, ch_logger = hs_logger hs, ch_P = P\<rparr>) hs of
        None \<Rightarrow> None
      | Some hs' \<Rightarrow> Some (registered ''Registered customize hook at %q for %q'' path gvr hs'))"

text \<open>
  The options the package exports. Only code of the package can write the unexported
  fields of a \<open>HookServer\<close>, so a server that was made by \<open>NewHookServer\<close> and never
  started has been changed by these options alone.
\<close>

inductive exported :: "'o Option \<Rightarrow> bool" where
  "exported (Addr a)"
| "exported (Logger lg)"
| "exported (SyncHook P gvr syncer)"
| "exported (FinalizeHook P gvr finalizer)"
| "exported (CustomizeHook P gvr customizer)"
| "(\<forall>hook\<in>set hooks. exported hook) \<Longrightarrow> exported (CompositeController hooks)"

text \<open>
  \<open>ListenAndServe\<close> stores a new \<open>http.Server\<close>, logs, and returns what the server's own
  \<open>ListenAndServe\<close> returns (the parameter \<open>serve\<close>). \<open>Shutdown\<close> logs and returns what the
  server's \<open>Shutdown\<close> returns (the parameter \<open>server_Shutdown\<close>; \<open>None\<close> is nil) when there
  is a server, and returns nil otherwise. A lone argument after the message of a slog
  call is recorded under the key \<open>!BADKEY\<close>.
\<close>

definition ListenAndServe :: "(http_Server \<Rightarrow> error) \<Rightarrow> 'o HookServer \<Rightarrow> error \<times> 'o HookServer" where
  "ListenAndServe serve hs =
     (let srv = \<lparr>srv_Addr = hs_addr hs\<rparr> in
      (serve srv,
       hs\<lparr>hs_server := Some srv,
          hs_log := hs_log hs @
            [\<lparr>level = LevelInfo, message = ''Starting HookServer at %s'',
              attrs = [(''!BADKEY'', hs_addr hs)]\<rparr>]\<rparr>))"

definition Shutdown ::
  "('ctx \<Rightarrow> http_Server \<Rightarrow> error option) \<Rightarrow> 'ctx \<Rightarrow> 'o HookServer \<Rightarrow> error option \<times> 'o HookServer" where
  "Shutdown server_Shutdown ctx hs =
     (case hs_server hs of
        Some srv \<Rightarrow>
          (server_Shutdown ctx srv,
           hs\<lparr>hs_log := hs_log hs @
             [\<lparr>level = LevelInfo, message = ''Shutting down HookServer at %s'',
               attrs = [(''!BADKEY'', hs_addr hs)]\<rparr>]\<rparr>)
      | None \<Rightarrow> (None, hs))"




section \<open>A concrete scheme and handlers\<close>

text \<open>
  A small instance on which the theorems below are exercised, after
  \<open>examples/microservice\<close>: a Microservice parent with Deployment and Service children.
  \<open>DeploymentList\<close> decodes but is no \<open>client.Object\<close>; \<open>Unregistered\<close> is an object of a
  type the scheme cannot encode. The blobs are short stand-ins for JSON documents, and
  the JSON decoder of the environment is a table from request bodies to decoded structs.
\<close>

datatype demo_object =
  Microservice string | Deployment string | Service string | DeploymentList | Unregistered

definition gvk_Microservice :: GroupVersionKind where
  "gvk_Microservice = \<lparr>Group = ''example.com'', Version = ''v1alpha1'', Kind = ''Microservice''\<rparr>"

definition gvk_Deployment :: GroupVersionKind where
  "gvk_Deployment = \<lparr>Group = ''apps'', Version = ''v1'', Kind = ''Deployment''\<rparr>"

definition gvk_Service :: GroupVersionKind where
  "gvk_Service = \<lparr>Group = [], Version = ''v1'', Kind = ''Service''\<rparr>"

definition demo_Decode :: "bytes \<Rightarrow> error + (demo_object \<times> GroupVersionKind)" where
  "demo_Decode raw =
     (if raw = ''ms:m1'' then Inr (Microservice ''m1'', gvk_Microservice)
      else if raw = ''dep:a'' then Inr (Deployment ''a'', gvk_Deployment)
      else if raw = ''dep:b'' then Inr (Deployment ''b'', gvk_Deployment)
      else if raw = ''svc:a'' then Inr (Service ''a'', gvk_Service)
      else if raw = ''deplist'' then
        Inr (DeploymentList, \<lparr>Group = ''apps'', Version = ''v1'', Kind = ''DeploymentList''\<rparr>)
      else Inl ''unexpected end of JSON input'')"

definition demo_Encode :: "demo_object \<Rightarrow> error + bytes" where
  "demo_Encode obj =
     (case obj of
        Microservice name \<Rightarrow> Inr (''ms:'' @ name)
      | Deployment name \<Rightarrow> Inr (''dep:'' @ name)
      | Service name \<Rightarrow> Inr (''svc:'' @ name)
      | DeploymentList \<Rightarrow> Inr ''deplist''
      | Unregistered \<Rightarrow> Inl ''no kind is registered for the type'')"

definition demo_scheme :: "demo_object Scheme" where
  "demo_scheme = \<lparr>UniversalDecoder = demo_Decode, LegacyCodec = (\<lambda>gv. demo_Encode)\<rparr>"

text \<open>
  What \<open>encoding/json\<close> returns for a \<open>*FinalizeResponse[P]\<close>: a nil pointer is encoded as
  \<open>null\<close>; a struct is rejected, whatever it holds, because the key type of its
  \<open>Children\<close> map, the struct \<open>schema.GroupVersionKind\<close>, is neither a string nor an integer
  nor an \<open>encoding.TextMarshaler\<close>.
\<close>

definition encoding_json_of_FinalizeResponse :: "'o FinalizeResponse option \<Rightarrow> error option" where
  "encoding_json_of_FinalizeResponse resp =
     (case resp of
        None \<Rightarrow> None
      | Some v \<Rightarrow> Some ''json: unsupported type: map[schema.GroupVersionKind][]client.Object'')"

definition demo_is_client_Object :: "demo_object \<Rightarrow> bool" where
  "demo_is_client_Object obj = (obj \<noteq> DeploymentList)"

definition demo_env :: "(bytes \<times> rawCompositeRequest) list \<Rightarrow> demo_object go_env" where
  "demo_env bodies =
     \<lparr>json_Decode_composite =
        (\<lambda>body. case map_of bodies body of
                  None \<Rightarrow> Inl ''unexpected end of JSON input''
                | Some rawReq \<Rightarrow> Inr rawReq),
      json_Decode_customize =
        (\<lambda>body. case map_of bodies body of
                  None \<Rightarrow> Inl ''unexpected end of JSON input''
                | Some rawReq \<Rightarrow>
                    Inr \<lparr>rawCust_Controller = ''{}'', rawCust_Parent = rawReq_Parent rawReq\<rparr>),
      json_Encode_composite = (\<lambda>resp. None),
      json_Encode_customize = (\<lambda>resp. None),
      json_Encode_finalize = encoding_json_of_FinalizeResponse,
      StatusText = (\<lambda>code. []),
      is_client_Object = demo_is_client_Object\<rparr>"

definition is_Microservice :: "demo_object \<Rightarrow> bool" where
  "is_Microservice obj = (case obj of Microservice name \<Rightarrow> True | _ \<Rightarrow> False)"

definition quiet :: slog_Logger where
  "quiet = \<lparr>Enabled = (\<lambda>l. l \<noteq> LevelDebug)\<rparr>"

text \<open>
  The \<open>sync\<close> function of \<open>examples/microservice/main.go\<close>, reduced to the names of the
  objects it builds.
\<close>

definition example_sync ::
  "demo_object Scheme \<Rightarrow> demo_object SyncRequest \<Rightarrow> error + demo_object SyncResponse option" where
  "example_sync scheme req =
     (case syncReq_Parent req of
        Microservice name \<Rightarrow>
          Inr (Some \<lparr>syncResp_Status = syncReq_Parent req,
                     syncResp_Children =
                       [(gvk_Deployment, [Deployment (name @ ''-deploy'')]),
                        (gvk_Service, [Service (name @ ''-svc'')])],
                     syncResp_Finalized = False\<rparr>)
      | _ \<Rightarrow> Inl ''not a microservice'')"

definition demo_syncHandler ::
  "(demo_object Scheme \<Rightarrow> demo_object SyncRequest \<Rightarrow> error + demo_object SyncResponse option)
    \<Rightarrow> demo_object syncHandler" where
  "demo_syncHandler syncer =
     \<lparr>sh_scheme = demo_scheme, sh_decoder = demo_Decode, sh_encoder = demo_Encode,
      sh_syncer = syncer, sh_logger = quiet, sh_P = is_Microservice\<rparr>"

definition demo_finalizeHandler ::
  "(demo_object Scheme \<Rightarrow> demo_object FinalizeRequest \<Rightarrow> error + demo_object FinalizeResponse option)
    \<Rightarrow> demo_object finalizeHandler" where
  "demo_finalizeHandler finalizer =
     \<lparr>fh_scheme = demo_scheme, fh_decoder = demo_Decode,
      fh_finalizer = finalizer, fh_logger = quiet, fh_P = is_Microservice\<rparr>"

definition demo_customizeHandler ::
  "(demo_object Scheme \<Rightarrow> demo_object CustomizeRequest \<Rightarrow> error + CustomizeResponse option)
    \<Rightarrow> demo_object customizeHandler" where
  "demo_customizeHandler customizer =
     \<lparr>ch_scheme = demo_scheme, ch_decoder = demo_Decode,
      ch_customizer = customizer, ch_logger = quiet, ch_P = is_Microservice\<rparr>"

definition post :: "bytes \<Rightarrow> http_Request" where
  "post body =
     \<lparr>Method = ''POST'', Path = ''/hooks/sync/microservices.example.com/v1alpha1'', Body = body\<rparr>"

definition post_to :: "string \<Rightarrow> bytes \<Rightarrow> http_Request" where
  "post_to hook body =
     \<lparr>Method = ''POST'', Path = ''/hooks/'' @ hook @ ''/microservices.example.com/v1alpha1'',
      Body = body\<rparr>"

definition sync_body :: "bytes \<Rightarrow> (string \<times> (string \<times> bytes) list) list \<Rightarrow> rawCompositeRequest" where
  "sync_body parent children =
     \<lparr>rawReq_Parent = parent, rawReq_Children = children, rawReq_Finalizing = False\<rparr>"



definition wire_order :: "(string \<times> (string \<times> bytes) list) list" where
  "wire_order = [(''Deployment.apps/v1'', [(''a'', ''dep:a''), (''b'', ''dep:b'')])]"

definition visit_order :: "(string \<times> (string \<times> bytes) list) list" where
  "visit_order = [(''Deployment.apps/v1'', [(''b'', ''dep:b''), (''a'', ''dep:a'')])]"

text \<open>
  A finalizer that reports the parent finalized and asks for no children, and a
  customizer that asks for the Deployments to be watched.
\<close>

definition example_finalize ::
  "demo_object Scheme \<Rightarrow> demo_object FinalizeRequest
    \<Rightarrow> error + demo_object FinalizeResponse option" where
  "example_finalize scheme req =
     Inr (Some \<lparr>finResp_Status = finReq_Parent req, finResp_Children = [],
                finResp_Finalized = True\<rparr>)"

definition example_customize ::
  "demo_object Scheme \<Rightarrow> demo_object CustomizeRequest \<Rightarrow> error + CustomizeResponse option" where
  "example_customize scheme req =
     Inr (Some \<lparr>RelatedResources =
       [\<lparr>APIVersion = ''apps/v1'', Resource = ''deployments'', LabelSelector = None,
         Namespace = [], Names = []\<rparr>]\<rparr>)"

text \<open>Syncers that fail, and that return an object the scheme cannot encode.\<close>

definition failing_sync ::
  "demo_object Scheme \<Rightarrow> demo_object SyncRequest \<Rightarrow> error + demo_object SyncResponse option" where
  "failing_sync scheme req = Inl ''dependency unavailable''"

definition unencodable_child_sync ::
  "demo_object Scheme \<Rightarrow> demo_object SyncRequest \<Rightarrow> error + demo_object SyncResponse option" where
  "unencodable_child_sync scheme req =
     Inr (Some \<lparr>syncResp_Status = syncReq_Parent req,
                syncResp_Children =
                  [(gvk_Deployment, [Deployment ''ok'']),
                   (gvk_Service, [Service ''ok'', Unregistered])],
                syncResp_Finalized = False\<rparr>)"

definition unencodable_status_sync ::
  "demo_object Scheme \<Rightarrow> demo_object SyncRequest \<Rightarrow> error + demo_object SyncResponse option" where
  "unencodable_status_sync scheme req =
     Inr (Some \<lparr>syncResp_Status = Unregistered, syncResp_Children = [],
                syncResp_Finalized = False\<rparr>)"

definition one_child_bodies :: "(bytes \<times> rawCompositeRequest) list" where
  "one_child_bodies =
     [(''ok'', sync_body ''ms:m1'' [(''Deployment.apps/v1'', [(''a'', ''dep:a'')])]),
      (''wrong-parent'', sync_body ''dep:a'' []),
      (''bad-parent'', sync_body ''{'' [])]"


definition finalized_with_service ::
  "demo_object Scheme \<Rightarrow> demo_object FinalizeRequest
    \<Rightarrow> error + demo_object FinalizeResponse option" where
  "finalized_with_service scheme req =
     Inr (Some \<lparr>finResp_Status = finReq_Parent req,
                finResp_Children = [(gvk_Service, [Service ''m1-svc''])],
                finResp_Finalized = True\<rparr>)"

definition microservices :: GroupVersionResource where
  "microservices = \<lparr>gvr_Group = ''example.com'', gvr_Version = ''v1alpha1'',
                    gvr_Resource = ''microservices''\<rparr>"

section \<open>What the decode loops compute\<close>

lemmas demo_defs =
  demo_env_def demo_syncHandler_def demo_finalizeHandler_def demo_customizeHandler_def
  demo_scheme_def demo_Decode_def demo_Encode_def demo_is_client_Object_def
  encoding_json_of_FinalizeResponse_def
  is_Microservice_def quiet_def post_def
  sync_body_def gvk_Microservice_def gvk_Deployment_def gvk_Service_def example_sync_def

lemma map_filter_append: "List.map_filter f (xs @ ys) = List.map_filter f xs @ List.map_filter f ys"
  by (simp add: List.map_filter_def)

lemma decodeChild_lookup:
  "lookup_children (fst (decodeChild dec isObj m1 m2 raw st)) gvk
     = lookup_children (fst st) gvk @ decoded_children dec isObj gvk [raw]"
  by (auto simp: decodeChild_def decoded_children_def decodes_as_def lookup_children_def
        List.map_filter_simps split: sum.splits prod.splits)


lemma decodeChild_no_empty_bucket:
  "\<forall>g. fst st g \<noteq> Some [] \<Longrightarrow> fst (decodeChild dec isObj m1 m2 raw st) g \<noteq> Some []"
  by (auto simp: decodeChild_def split: sum.splits prod.splits)

lemma decodeList_lookup:
  "lookup_children (fst (decodeList dec isObj m1 m2 rawList st)) gvk
     = lookup_children (fst st) gvk @ decoded_children dec isObj gvk (map snd rawList)"
proof (induction rawList arbitrary: st)
  case Nil
  then show ?case by (simp add: decoded_children_def List.map_filter_simps)
next
  case (Cons item rawList)
  obtain name raw where item: "item = (name, raw)" by (cases item)
  have "decoded_children dec isObj gvk (raw # map snd rawList)
          = decoded_children dec isObj gvk [raw] @ decoded_children dec isObj gvk (map snd rawList)"
    using map_filter_append [of "decodes_as dec isObj gvk" "[raw]" "map snd rawList"]
    by (simp add: decoded_children_def)
  with Cons.IH item show ?case by (simp add: decodeChild_lookup)
qed


lemma decodeList_no_empty_bucket:
  "\<forall>g. fst st g \<noteq> Some [] \<Longrightarrow> \<forall>g. fst (decodeList dec isObj m1 m2 rawList st) g \<noteq> Some []"
proof (induction rawList arbitrary: st)
  case Nil
  then show ?case by simp
next
  case (Cons item rawList)
  obtain name raw where item: "item = (name, raw)" by (cases item)
  from Cons.prems have "\<forall>g. fst (decodeChild dec isObj m1 m2 raw st) g \<noteq> Some []"
    by (simp add: decodeChild_no_empty_bucket)
  from Cons.IH [OF this] item show ?case by simp
qed

lemma decodeChildren_lookup:
  "lookup_children (fst (decodeChildren dec isObj m1 m2 children st)) gvk
     = lookup_children (fst st) gvk @ decoded_children dec isObj gvk (blobs_of children)"
proof (induction children arbitrary: st)
  case Nil
  then show ?case by (simp add: decoded_children_def blobs_of_def List.map_filter_simps)
next
  case (Cons entry children)
  obtain key rawList where entry: "entry = (key, rawList)" by (cases entry)
  have "decoded_children dec isObj gvk (blobs_of (entry # children))
          = decoded_children dec isObj gvk (map snd rawList)
            @ decoded_children dec isObj gvk (blobs_of children)"
    using entry by (simp add: decoded_children_def blobs_of_def map_filter_append)
  with Cons.IH entry show ?case by (simp add: decodeList_lookup)
qed


lemma decodeChildren_no_empty_bucket:
  "\<forall>g. fst st g \<noteq> Some [] \<Longrightarrow> \<forall>g. fst (decodeChildren dec isObj m1 m2 children st) g \<noteq> Some []"
proof (induction children arbitrary: st)
  case Nil
  then show ?case by simp
next
  case (Cons entry children)
  obtain key rawList where entry: "entry = (key, rawList)" by (cases entry)
  from Cons.prems have "\<forall>g. fst (decodeList dec isObj m1 m2 rawList st) g \<noteq> Some []"
    by (rule decodeList_no_empty_bucket)
  from Cons.IH [OF this] entry show ?case by simp
qed

lemma observed_bucket:
  "fst (decodeChildren dec isObj m1 m2 children (Map.empty, [])) gvk
     = (if decoded_children dec isObj gvk (blobs_of children) = [] then None
        else Some (decoded_children dec isObj gvk (blobs_of children)))"
proof -
  let ?m = "fst (decodeChildren dec isObj m1 m2 children (Map.empty, []))"
  have l: "lookup_children ?m gvk = decoded_children dec isObj gvk (blobs_of children)"
    using decodeChildren_lookup [of dec isObj m1 m2 children "(Map.empty, [])" gvk]
    by (simp add: lookup_children_def)
  have n: "?m gvk \<noteq> Some []"
    using decodeChildren_no_empty_bucket [of "(Map.empty, [])" dec isObj m1 m2 children] by simp
  from l n show ?thesis by (auto simp: lookup_children_def split: option.splits)
qed






lemma skip_records_well_formed:
  "\<not> malformed dec isObj raw \<Longrightarrow> skip_records dec isObj m1 m2 raw = []"
  by (auto simp: malformed_def skip_records_def split: sum.splits prod.splits)

lemma skip_records_malformed:
  "malformed dec isObj raw \<Longrightarrow> length (skip_records dec isObj m1 m2 raw) = 1"
  by (auto simp: malformed_def skip_records_def split: sum.splits prod.splits)

section \<open>Properties of KeyForGVK\<close>

lemma split_at_separator:
  "c \<notin> set a \<Longrightarrow> c \<notin> set a' \<Longrightarrow> a @ c # r = a' @ c # r' \<Longrightarrow> a = a' \<and> r = r'"
proof (induction a arbitrary: a')
  case Nil
  then show ?case by (cases a') auto
next
  case (Cons x a)
  then show ?case by (cases a') auto
qed

lemma KeyForGVK_inj_slash_free:
  assumes "slash_free g1" and "slash_free g2" and "KeyForGVK g1 = KeyForGVK g2"
  shows "g1 = g2"
proof -
  obtain a1 b1 c1 where g1: "g1 = \<lparr>Group = a1, Version = b1, Kind = c1\<rparr>"
    by (cases g1) auto
  obtain a2 b2 c2 where g2: "g2 = \<lparr>Group = a2, Version = b2, Kind = c2\<rparr>"
    by (cases g2) auto
  from assms(1) g1 have s1: "CHR ''/'' \<notin> set a1" "CHR ''/'' \<notin> set b1" "CHR ''/'' \<notin> set c1"
    by (simp_all add: slash_free_def)
  from assms(2) g2 have s2: "CHR ''/'' \<notin> set a2" "CHR ''/'' \<notin> set b2" "CHR ''/'' \<notin> set c2"
    by (simp_all add: slash_free_def)
  show ?thesis
  proof (cases "a1 = []")
    case e1: True
    show ?thesis
    proof (cases "a2 = []")
      case True
      with e1 assms(3) g1 g2 have "b1 @ CHR ''/'' # c1 = b2 @ CHR ''/'' # c2"
        by (simp add: KeyForGVK_def)
      from split_at_separator [OF s1(2) s2(2) this] e1 True g1 g2 show ?thesis by simp
    next
      case False
      with e1 assms(3) g1 g2 have "b1 @ CHR ''/'' # c1 = a2 @ CHR ''/'' # (b2 @ CHR ''/'' # c2)"
        by (simp add: KeyForGVK_def)
      from split_at_separator [OF s1(2) s2(1) this] have "c1 = b2 @ CHR ''/'' # c2" by simp
      with s1(3) show ?thesis by simp
    qed
  next
    case n1: False
    show ?thesis
    proof (cases "a2 = []")
      case True
      with n1 assms(3) g1 g2 have "b2 @ CHR ''/'' # c2 = a1 @ CHR ''/'' # (b1 @ CHR ''/'' # c1)"
        by (simp add: KeyForGVK_def)
      from split_at_separator [OF s2(2) s1(1) this] have "c2 = b1 @ CHR ''/'' # c1" by simp
      with s2(3) show ?thesis by simp
    next
      case False
      with n1 assms(3) g1 g2
      have eq: "a1 @ CHR ''/'' # (b1 @ CHR ''/'' # c1) = a2 @ CHR ''/'' # (b2 @ CHR ''/'' # c2)"
        by (simp add: KeyForGVK_def)
      from split_at_separator [OF s1(1) s2(1) eq]
      have a: "a1 = a2" and rest: "b1 @ CHR ''/'' # c1 = b2 @ CHR ''/'' # c2" by simp_all
      from split_at_separator [OF s1(2) s2(2) rest] a g1 g2 show ?thesis by simp
    qed
  qed
qed

text \<open>
  C7 (as stated, refuted): the key is not injective over all identifiers. An identifier
  whose version holds the whole \<open>apiVersion\<close> text \<open>apps/v1\<close> and whose group is empty has
  the same key as the Deployment kind of group \<open>apps\<close>, version \<open>v1\<close>.
\<close>

theorem C7_key_collision:
  "KeyForGVK \<lparr>Group = '''', Version = ''apps/v1'', Kind = ''Deployment''\<rparr>
     = KeyForGVK \<lparr>Group = ''apps'', Version = ''v1'', Kind = ''Deployment''\<rparr>
   \<and> \<lparr>Group = '''', Version = ''apps/v1'', Kind = ''Deployment''\<rparr>
     \<noteq> \<lparr>Group = ''apps'', Version = ''v1'', Kind = ''Deployment''\<rparr>"
  by (simp add: KeyForGVK_def)

text \<open>
  C7 (amended): for every GroupVersionKind, KeyForGVK returns \<open>version/kind\<close> when the
  group is empty and \<open>group/version/kind\<close> otherwise; over the identifiers whose group,
  version and kind contain no \<open>/\<close> the key is injective, so that some parser maps every
  such key back to the identifier it was made from, in the long and in the short form.
\<close>

theorem C7_key_form_and_injective:
  "(Group gvk = '''' \<longrightarrow> KeyForGVK gvk = Version gvk @ ''/'' @ Kind gvk)
   \<and> (Group gvk \<noteq> '''' \<longrightarrow> KeyForGVK gvk = Group gvk @ ''/'' @ Version gvk @ ''/'' @ Kind gvk)
   \<and> (slash_free g1 \<and> slash_free g2 \<and> KeyForGVK g1 = KeyForGVK g2 \<longrightarrow> g1 = g2)
   \<and> (\<exists>parse. \<forall>g. slash_free g \<longrightarrow> parse (KeyForGVK g) = g)"
proof -
  have inj: "inj_on KeyForGVK (Collect slash_free)"
    by (rule inj_onI) (auto intro: KeyForGVK_inj_slash_free)
  have "\<forall>g. slash_free g \<longrightarrow> inv_into (Collect slash_free) KeyForGVK (KeyForGVK g) = g"
    using inv_into_f_f [OF inj] by simp
  then have "\<exists>parse. \<forall>g. slash_free g \<longrightarrow> parse (KeyForGVK g) = g" by blast
  then show ?thesis
    using KeyForGVK_inj_slash_free by (auto simp: KeyForGVK_def)
qed

theorem C7_key_form_and_injective_witness:
  "KeyForGVK \<lparr>Group = '''', Version = ''v1'', Kind = ''Service''\<rparr> = ''v1/Service''
   \<and> KeyForGVK \<lparr>Group = ''apps'', Version = ''v1'', Kind = ''Deployment''\<rparr> = ''apps/v1/Deployment''
   \<and> slash_free \<lparr>Group = ''apps'', Version = ''v1'', Kind = ''Deployment''\<rparr>
   \<and> (\<exists>parse. parse ''apps/v1/Deployment'' = \<lparr>Group = ''apps'', Version = ''v1'', Kind = ''Deployment''\<rparr>)"
proof -
  have sf: "slash_free \<lparr>Group = ''apps'', Version = ''v1'', Kind = ''Deployment''\<rparr>"
    by (simp add: slash_free_def)
  have k: "KeyForGVK \<lparr>Group = ''apps'', Version = ''v1'', Kind = ''Deployment''\<rparr> = ''apps/v1/Deployment''"
    using C7_key_form_and_injective
      [of "\<lparr>Group = ''apps'', Version = ''v1'', Kind = ''Deployment''\<rparr>"]
    by simp
  have s: "KeyForGVK \<lparr>Group = '''', Version = ''v1'', Kind = ''Service''\<rparr> = ''v1/Service''"
    using C7_key_form_and_injective
      [of "\<lparr>Group = '''', Version = ''v1'', Kind = ''Service''\<rparr>"]
    by simp
  from C7_key_form_and_injective
  obtain parse where "\<forall>g. slash_free g \<longrightarrow> parse (KeyForGVK g) = g" by blast
  with sf k have "parse ''apps/v1/Deployment'' = \<lparr>Group = ''apps'', Version = ''v1'', Kind = ''Deployment''\<rparr>"
    by metis
  with sf k s show ?thesis by blast
qed

section \<open>Properties of writeError\<close>

text \<open>
  C9: with the debug level disabled, writeError answers any two errors for the same
  status code with the same response, whose body is the fixed category text of the code
  ("bad request", "internal server error", "method not allowed") and holds nothing of
  the error; with the debug level enabled the error text is appended after \<open>": "\<close>.
\<close>

theorem C9_generic_error_bodies:
  "(\<not> Enabled lg LevelDebug \<longrightarrow>
      fst (writeError st code e1 lg) = (fst (writeError st code e2 lg) :: 'a http_Response)
      \<and> (fst (writeError st 400 e1 lg) :: 'a http_Response) = HttpError 400 ''bad request''
      \<and> (fst (writeError st 500 e1 lg) :: 'a http_Response) = HttpError 500 ''internal server error''
      \<and> (fst (writeError st 405 e1 lg) :: 'a http_Response) = HttpError 405 ''method not allowed'')
   \<and> (Enabled lg LevelDebug \<longrightarrow>
      (fst (writeError st code e1 lg) :: 'a http_Response)
        = HttpError code (category st code @ '': '' @ e1))"
  by (simp add: writeError_def category_def)

theorem C9_generic_error_bodies_witness:
  "\<not> Enabled \<lparr>Enabled = (\<lambda>l. l = LevelError)\<rparr> LevelDebug
   \<and> (fst (writeError (\<lambda>c. '''') 400 ''SyncHook: error decoding parent: no kind'' \<lparr>Enabled = (\<lambda>l. l = LevelError)\<rparr>) :: unit http_Response)
       = fst (writeError (\<lambda>c. '''') 400 ''SyncHook: type assertion failure: parent'' \<lparr>Enabled = (\<lambda>l. l = LevelError)\<rparr>)
   \<and> Enabled \<lparr>Enabled = (\<lambda>l. True)\<rparr> LevelDebug
   \<and> (fst (writeError (\<lambda>c. '''') 500 ''boom'' \<lparr>Enabled = (\<lambda>l. True)\<rparr>) :: unit http_Response)
       = HttpError 500 ''internal server error: boom''"
  using C9_generic_error_bodies [where lg = "\<lparr>Enabled = (\<lambda>l. l = LevelError)\<rparr>"
      and st = "\<lambda>c. ''''" and code = 400 and 'a = unit
      and ?e1.0 = "''SyncHook: error decoding parent: no kind''"
      and ?e2.0 = "''SyncHook: type assertion failure: parent''"]
    C9_generic_error_bodies [where lg = "\<lparr>Enabled = (\<lambda>l. True)\<rparr>"
      and st = "\<lambda>c. ''''" and code = 500 and 'a = unit and ?e1.0 = "''boom''"]
  by (simp add: category_def)

section \<open>The sync handler assembles its request\<close>


lemma sync_assembled_calls:
  assumes "json_Decode_composite env (Body r) = Inr rawReq"
    and "sh_decoder sh (rawReq_Parent rawReq) = Inr (p, pgvk)"
    and "sh_P sh p"
  shows "calls (syncHandler_ServeHTTP env sh r)
           = [\<lparr>syncReq_Parent = p,
               syncReq_Children = fst (decodeChildren (sh_decoder sh) (is_client_Object env)
                   ''SyncHook: error decoding child''
                   ''SyncHook: type assertion failure: child is not a client.Object''
                   (rawReq_Children rawReq) (Map.empty, [])),
               syncReq_Finalizing = rawReq_Finalizing rawReq\<rparr>]"
  using assms
  by (simp add: syncHandler_ServeHTTP_def Let_def finish_def write_json_def split: sum.splits option.splits)





section \<open>Order within a bucket\<close>

lemma mset_blobs_of:
  "mset (blobs_of children)
     = sum_mset (image_mset (\<lambda>entry. image_mset snd (snd entry))
         (mset (map (\<lambda>entry. (fst entry, mset (snd entry))) children)))"
  by (induction children) (simp_all add: blobs_of_def)

lemma same_entries_blobs:
  "same_entries wire visit \<Longrightarrow> mset (blobs_of wire) = mset (blobs_of visit)"
  by (simp add: mset_blobs_of same_entries_def)

lemma mset_decoded_children:
  "mset (decoded_children dec isObj gvk blobs)
     = image_mset (the \<circ> decodes_as dec isObj gvk)
         (filter_mset (\<lambda>raw. decodes_as dec isObj gvk raw \<noteq> None) (mset blobs))"
  by (simp add: decoded_children_def List.map_filter_def)

lemma decoded_children_same_entries:
  "same_entries wire visit \<Longrightarrow>
     mset (decoded_children dec isObj gvk (blobs_of visit))
       = mset (decoded_children dec isObj gvk (blobs_of wire))"
  by (simp add: mset_decoded_children same_entries_blobs)

text \<open>
  C8 (as stated, refuted): the wire lists the Deployment \<open>a\<close> before \<open>b\<close>; the children
  arrive in a Go map, whose \<open>range\<close> may visit \<open>b\<close> first, and the bucket handed to the
  user's function then holds \<open>b\<close> before \<open>a\<close>.
\<close>

theorem C8_wire_order_lost:
  "same_entries wire_order visit_order
   \<and> map (\<lambda>rq. lookup_children (syncReq_Children rq) gvk_Deployment)
       (calls (syncHandler_ServeHTTP (demo_env [(''B'', sync_body ''ms:m1'' visit_order)])
          (demo_syncHandler example_sync) (post ''B'')))
     = [[Deployment ''b'', Deployment ''a'']]
   \<and> decoded_children demo_Decode demo_is_client_Object gvk_Deployment (blobs_of wire_order)
     = [Deployment ''a'', Deployment ''b'']"
  by (simp add: finish_def write_json_def same_entries_def wire_order_def visit_order_def syncHandler_ServeHTTP_def
        demo_defs decodeChild_def lookup_children_def Let_def KeyForGVK_def
        decoded_children_def decodes_as_def blobs_of_def List.map_filter_simps)

text \<open>
  C8 (amended): for every sync request that passes assembly, the user's function is
  called once, after the whole Child Set is assembled; within each kind bucket the
  decoded children stand in the order in which the handler's \<open>range\<close> statements visit
  the children maps, which Go leaves unspecified, so that the bucket holds the same
  children, each as often, as the wire's well-formed blobs of that kind, in some order.
\<close>

theorem C8_bucket_order:
  assumes "json_Decode_composite env (Body r) = Inr rawReq"
    and "sh_decoder sh (rawReq_Parent rawReq) = Inr (p, pgvk)"
    and "sh_P sh p"
    and "same_entries wire (rawReq_Children rawReq)"
  shows "\<exists>cs. calls (syncHandler_ServeHTTP env sh r)
              = [\<lparr>syncReq_Parent = p, syncReq_Children = cs,
                  syncReq_Finalizing = rawReq_Finalizing rawReq\<rparr>]
          \<and> (\<forall>gvk. lookup_children cs gvk
                = decoded_children (sh_decoder sh) (is_client_Object env) gvk
                    (blobs_of (rawReq_Children rawReq)))
          \<and> (\<forall>gvk. mset (lookup_children cs gvk)
                = mset (decoded_children (sh_decoder sh) (is_client_Object env) gvk
                    (blobs_of wire)))"
proof -
  let ?obs = "decodeChildren (sh_decoder sh) (is_client_Object env)
     ''SyncHook: error decoding child''
     ''SyncHook: type assertion failure: child is not a client.Object''
     (rawReq_Children rawReq) (Map.empty, [])"
  have c: "calls (syncHandler_ServeHTTP env sh r)
             = [\<lparr>syncReq_Parent = p, syncReq_Children = fst ?obs,
                 syncReq_Finalizing = rawReq_Finalizing rawReq\<rparr>]"
    by (rule sync_assembled_calls [OF assms(1-3)])
  have b: "\<forall>gvk. lookup_children (fst ?obs) gvk
             = decoded_children (sh_decoder sh) (is_client_Object env) gvk
                 (blobs_of (rawReq_Children rawReq))"
    by (simp add: lookup_children_def observed_bucket)
  have m: "\<forall>gvk. mset (lookup_children (fst ?obs) gvk)
             = mset (decoded_children (sh_decoder sh) (is_client_Object env) gvk (blobs_of wire))"
    using b decoded_children_same_entries [OF assms(4), of "sh_decoder sh" "is_client_Object env"]
    by simp
  from c b m show ?thesis by blast
qed

theorem C8_bucket_order_witness:
  "json_Decode_composite (demo_env [(''B'', sync_body ''ms:m1'' visit_order)]) (Body (post ''B''))
     = Inr (sync_body ''ms:m1'' visit_order)
   \<and> sh_decoder (demo_syncHandler example_sync) (rawReq_Parent (sync_body ''ms:m1'' visit_order))
     = Inr (Microservice ''m1'', gvk_Microservice)
   \<and> sh_P (demo_syncHandler example_sync) (Microservice ''m1'')
   \<and> same_entries wire_order (rawReq_Children (sync_body ''ms:m1'' visit_order))
   \<and> map (\<lambda>rq. mset (lookup_children (syncReq_Children rq) gvk_Deployment))
       (calls (syncHandler_ServeHTTP (demo_env [(''B'', sync_body ''ms:m1'' visit_order)])
          (demo_syncHandler example_sync) (post ''B'')))
     = [{#Deployment ''a'', Deployment ''b''#}]"
proof -
  let ?env = "demo_env [(''B'', sync_body ''ms:m1'' visit_order)]"
  let ?sh = "demo_syncHandler example_sync"
  have h1: "json_Decode_composite ?env (Body (post ''B'')) = Inr (sync_body ''ms:m1'' visit_order)"
    by (simp add: demo_defs)
  have h2: "sh_decoder ?sh (rawReq_Parent (sync_body ''ms:m1'' visit_order))
              = Inr (Microservice ''m1'', gvk_Microservice)"
    by (simp add: demo_defs)
  have h3: "sh_P ?sh (Microservice ''m1'')"
    by (simp add: demo_defs)
  have h4: "same_entries wire_order (rawReq_Children (sync_body ''ms:m1'' visit_order))"
    by (simp add: same_entries_def wire_order_def visit_order_def sync_body_def)
  from C8_bucket_order [OF h1 h2 h3 h4]
  obtain cs where
    c: "calls (syncHandler_ServeHTTP ?env ?sh (post ''B''))
          = [\<lparr>syncReq_Parent = Microservice ''m1'', syncReq_Children = cs,
              syncReq_Finalizing = rawReq_Finalizing (sync_body ''ms:m1'' visit_order)\<rparr>]"
    and m: "\<forall>gvk. mset (lookup_children cs gvk)
          = mset (decoded_children (sh_decoder ?sh) (is_client_Object ?env) gvk (blobs_of wire_order))"
    by blast
  have "map (\<lambda>rq. mset (lookup_children (syncReq_Children rq) gvk_Deployment))
       (calls (syncHandler_ServeHTTP ?env ?sh (post ''B'')))
     = [{#Deployment ''a'', Deployment ''b''#}]"
    using c m
    by (simp add: decoded_children_def decodes_as_def blobs_of_def List.map_filter_simps
          demo_defs wire_order_def)
  with h1 h2 h3 h4 show ?thesis by blast
qed

section \<open>Rejections before the user's function runs\<close>

lemmas demo_more_defs =
  example_finalize_def example_customize_def failing_sync_def unencodable_child_sync_def
  unencodable_status_sync_def one_child_bodies_def

text \<open>
  C4: a request whose parent decodes, but not to the type the endpoint was registered
  for, is answered 400 and the user's function is not called; this holds for the sync,
  the customize and the finalize handler.
\<close>

theorem C4_type_mismatch_rejected:
  "(json_Decode_composite env (Body r) = Inr rawReq
      \<and> sh_decoder sh (rawReq_Parent rawReq) = Inr (p, pgvk) \<and> \<not> sh_P sh p
    \<longrightarrow> status_code (response (syncHandler_ServeHTTP env sh r)) = Some 400
      \<and> calls (syncHandler_ServeHTTP env sh r) = [])
   \<and> (json_Decode_customize env (Body r) = Inr rawCust
      \<and> ch_decoder ch (rawCust_Parent rawCust) = Inr (p, pgvk) \<and> \<not> ch_P ch p
    \<longrightarrow> status_code (response (customizeHandler_ServeHTTP env ch r)) = Some 400
      \<and> calls (customizeHandler_ServeHTTP env ch r) = [])
   \<and> (json_Decode_composite env (Body r) = Inr rawReq
      \<and> fh_decoder fh (rawReq_Parent rawReq) = Inr (p, pgvk) \<and> \<not> fh_P fh p
    \<longrightarrow> status_code (response (finalizeHandler_ServeHTTP env fh r)) = Some 400
      \<and> calls (finalizeHandler_ServeHTTP env fh r) = [])"
  by (simp add: syncHandler_ServeHTTP_def customizeHandler_ServeHTTP_def
        finalizeHandler_ServeHTTP_def finish_def write_json_def writeError_def Let_def)

theorem C4_type_mismatch_rejected_witness:
  "json_Decode_composite (demo_env one_child_bodies) (Body (post ''wrong-parent''))
     = Inr (sync_body ''dep:a'' [])
   \<and> demo_Decode ''dep:a'' = Inr (Deployment ''a'', gvk_Deployment)
   \<and> \<not> is_Microservice (Deployment ''a'')
   \<and> status_code (response (syncHandler_ServeHTTP (demo_env one_child_bodies)
        (demo_syncHandler example_sync) (post ''wrong-parent''))) = Some 400
   \<and> calls (syncHandler_ServeHTTP (demo_env one_child_bodies)
        (demo_syncHandler example_sync) (post ''wrong-parent'')) = []
   \<and> status_code (response (customizeHandler_ServeHTTP (demo_env one_child_bodies)
        (demo_customizeHandler example_customize) (post ''wrong-parent''))) = Some 400
   \<and> calls (customizeHandler_ServeHTTP (demo_env one_child_bodies)
        (demo_customizeHandler example_customize) (post ''wrong-parent'')) = []
   \<and> status_code (response (finalizeHandler_ServeHTTP (demo_env one_child_bodies)
        (demo_finalizeHandler example_finalize) (post ''wrong-parent''))) = Some 400
   \<and> calls (finalizeHandler_ServeHTTP (demo_env one_child_bodies)
        (demo_finalizeHandler example_finalize) (post ''wrong-parent'')) = []"
proof -
  let ?env = "demo_env one_child_bodies"
  have h1: "json_Decode_composite ?env (Body (post ''wrong-parent'')) = Inr (sync_body ''dep:a'' [])"
    by (simp add: demo_defs demo_more_defs)
  have h1': "json_Decode_customize ?env (Body (post ''wrong-parent''))
               = Inr \<lparr>rawCust_Controller = ''{}'', rawCust_Parent = ''dep:a''\<rparr>"
    by (simp add: demo_defs demo_more_defs)
  have h2: "demo_Decode ''dep:a'' = Inr (Deployment ''a'', gvk_Deployment)"
    by (simp add: demo_defs)
  have h3: "\<not> is_Microservice (Deployment ''a'')"
    by (simp add: demo_defs)
  from h1 h1' h2 h3
    C4_type_mismatch_rejected [of ?env "post ''wrong-parent''" "sync_body ''dep:a'' []"
      "demo_syncHandler example_sync" "Deployment ''a''" gvk_Deployment
      "\<lparr>rawCust_Controller = ''{}'', rawCust_Parent = ''dep:a''\<rparr>"
      "demo_customizeHandler example_customize" "demo_finalizeHandler example_finalize"]
  show ?thesis
    by (simp add: demo_syncHandler_def demo_customizeHandler_def demo_finalizeHandler_def
          sync_body_def)
qed

section \<open>Encoding failures\<close>

lemma encodeList_fails:
  "(\<exists>err. encodeList enc objs rawList = Inl err) \<longleftrightarrow> (\<exists>obj\<in>set objs. isl (enc obj))"
  by (induction objs arbitrary: rawList) (auto split: sum.splits simp: isl_def)

lemma encodeChildren_fails:
  "(\<exists>err. encodeChildren enc children desired = Inl err)
     \<longleftrightarrow> (\<exists>entry\<in>set children. \<exists>obj\<in>set (snd entry). isl (enc obj))"
proof (induction children arbitrary: desired)
  case Nil
  then show ?case by simp
next
  case (Cons entry children)
  obtain gvk objs where entry: "entry = (gvk, objs)" by (cases entry)
  show ?case
  proof (cases "encodeList enc objs []")
    case (Inl err)
    then have "\<exists>obj\<in>set objs. isl (enc obj)" using encodeList_fails [of enc objs "[]"] by blast
    with Inl entry show ?thesis by auto
  next
    case (Inr rawList)
    then have no: "\<not> (\<exists>obj\<in>set objs. isl (enc obj))"
      using encodeList_fails [of enc objs "[]"] by auto
    have "(\<exists>err. encodeChildren enc (entry # children) desired = Inl err)
        \<longleftrightarrow> (\<exists>err. encodeChildren enc children (desired(KeyForGVK gvk \<mapsto> rawList)) = Inl err)"
      using Inr entry by simp
    also have "\<dots> \<longleftrightarrow> (\<exists>e\<in>set children. \<exists>obj\<in>set (snd e). isl (enc obj))"
      by (rule Cons.IH)
    also have "\<dots> \<longleftrightarrow> (\<exists>e\<in>set (entry # children). \<exists>obj\<in>set (snd e). isl (enc obj))"
      using no entry by auto
    finally show ?thesis .
  qed
qed

text \<open>
  C5: when the user's function of the sync handler has returned a response, and the
  status or any one of the desired children fails to encode, the request is answered
  500 through \<open>writeError\<close> and no success payload is written.
\<close>

theorem C5_encode_failure_is_fatal:
  assumes "calls (syncHandler_ServeHTTP env sh r) = [req]"
    and "sh_syncer sh (sh_scheme sh) req = Inr (Some resp)"
    and "isl (sh_encoder sh (syncResp_Status resp))
       \<or> (\<exists>entry\<in>set (syncResp_Children resp). \<exists>obj\<in>set (snd entry). isl (sh_encoder sh obj))"
  shows "(\<exists>err. response (syncHandler_ServeHTTP env sh r)
            = fst (writeError (StatusText env) 500 err (sh_logger sh)))
       \<and> status_code (response (syncHandler_ServeHTTP env sh r)) = Some 500
       \<and> (\<forall>payload. response (syncHandler_ServeHTTP env sh r) \<noteq> HttpJSON payload)"
proof -
  from assms(3) have
    enc: "isl (sh_encoder sh (syncResp_Status resp))
       \<or> (\<exists>err. encodeChildren (sh_encoder sh) (syncResp_Children resp) Map.empty = Inl err)"
    using encodeChildren_fails [of "sh_encoder sh" "syncResp_Children resp" Map.empty] by blast
  from assms(1,2) enc
  have "\<exists>err. response (syncHandler_ServeHTTP env sh r)
            = fst (writeError (StatusText env) 500 err (sh_logger sh))"
    by (auto simp: syncHandler_ServeHTTP_def Let_def finish_def write_json_def isl_def
          split: sum.splits option.splits if_splits prod.splits)
  then show ?thesis by (auto simp: writeError_def Let_def)
qed

theorem C5_encode_failure_is_fatal_witness:
  "calls (syncHandler_ServeHTTP (demo_env one_child_bodies)
       (demo_syncHandler unencodable_child_sync) (post ''ok''))
     = [\<lparr>syncReq_Parent = Microservice ''m1'',
         syncReq_Children = [gvk_Deployment \<mapsto> [Deployment ''a'']],
         syncReq_Finalizing = False\<rparr>]
   \<and> sh_syncer (demo_syncHandler unencodable_child_sync)
        (sh_scheme (demo_syncHandler unencodable_child_sync))
        \<lparr>syncReq_Parent = Microservice ''m1'',
         syncReq_Children = [gvk_Deployment \<mapsto> [Deployment ''a'']],
         syncReq_Finalizing = False\<rparr>
     = Inr (Some \<lparr>syncResp_Status = Microservice ''m1'',
                  syncResp_Children =
                    [(gvk_Deployment, [Deployment ''ok'']),
                     (gvk_Service, [Service ''ok'', Unregistered])],
                  syncResp_Finalized = False\<rparr>)
   \<and> isl (demo_Encode Unregistered)
   \<and> status_code (response (syncHandler_ServeHTTP (demo_env one_child_bodies)
        (demo_syncHandler unencodable_child_sync) (post ''ok''))) = Some 500
   \<and> response (syncHandler_ServeHTTP (demo_env one_child_bodies)
        (demo_syncHandler unencodable_child_sync) (post ''ok''))
     = HttpError 500 ''internal server error''
   \<and> status_code (response (syncHandler_ServeHTTP (demo_env one_child_bodies)
        (demo_syncHandler unencodable_status_sync) (post ''ok''))) = Some 500"
proof -
  let ?env = "demo_env one_child_bodies"
  let ?sh = "demo_syncHandler unencodable_child_sync"
  let ?sh' = "demo_syncHandler unencodable_status_sync"
  let ?req = "\<lparr>syncReq_Parent = Microservice ''m1'',
         syncReq_Children = [gvk_Deployment \<mapsto> [Deployment ''a'']],
         syncReq_Finalizing = False\<rparr>"
  let ?resp = "\<lparr>syncResp_Status = Microservice ''m1'',
                  syncResp_Children =
                    [(gvk_Deployment, [Deployment ''ok'']),
                     (gvk_Service, [Service ''ok'', Unregistered])],
                  syncResp_Finalized = False\<rparr>"
  let ?resp' = "\<lparr>syncResp_Status = Unregistered, syncResp_Children = [],
                  syncResp_Finalized = False\<rparr>"
  have h1: "calls (syncHandler_ServeHTTP ?env ?sh (post ''ok'')) = [?req]"
    by (simp add: syncHandler_ServeHTTP_def demo_defs demo_more_defs decodeChild_def
          lookup_children_def Let_def finish_def write_json_def writeError_def KeyForGVK_def)
  have h2: "sh_syncer ?sh (sh_scheme ?sh) ?req = Inr (Some ?resp)"
    by (simp add: demo_defs demo_more_defs)
  have u: "isl (demo_Encode Unregistered)"
    by (simp add: demo_defs)
  have h3: "isl (sh_encoder ?sh (syncResp_Status ?resp))
       \<or> (\<exists>entry\<in>set (syncResp_Children ?resp). \<exists>obj\<in>set (snd entry). isl (sh_encoder ?sh obj))"
    using u by (simp add: demo_syncHandler_def)
  have h1': "calls (syncHandler_ServeHTTP ?env ?sh' (post ''ok'')) = [?req]"
    by (simp add: syncHandler_ServeHTTP_def demo_defs demo_more_defs decodeChild_def
          lookup_children_def Let_def finish_def write_json_def writeError_def KeyForGVK_def)
  have h2': "sh_syncer ?sh' (sh_scheme ?sh') ?req = Inr (Some ?resp')"
    by (simp add: demo_defs demo_more_defs)
  have h3': "isl (sh_encoder ?sh' (syncResp_Status ?resp'))
       \<or> (\<exists>entry\<in>set (syncResp_Children ?resp'). \<exists>obj\<in>set (snd entry). isl (sh_encoder ?sh' obj))"
    using u by (simp add: demo_syncHandler_def)
  from C5_encode_failure_is_fatal [OF h1 h2 h3]
  have s: "status_code (response (syncHandler_ServeHTTP ?env ?sh (post ''ok''))) = Some 500"
    and "\<exists>err. response (syncHandler_ServeHTTP ?env ?sh (post ''ok''))
            = fst (writeError (StatusText ?env) 500 err (sh_logger ?sh))"
    by blast+
  then have b: "response (syncHandler_ServeHTTP ?env ?sh (post ''ok''))
                  = HttpError 500 ''internal server error''"
    by (auto simp: writeError_def Let_def category_def demo_syncHandler_def quiet_def)
  from C5_encode_failure_is_fatal [OF h1' h2' h3']
  have s': "status_code (response (syncHandler_ServeHTTP ?env ?sh' (post ''ok''))) = Some 500"
    by blast
  from h1 h2 u s b s' show ?thesis by blast
qed

section \<open>Status codes\<close>










section \<open>The finalize handler\<close>

lemma finalize_calls_without_children:
  "rq \<in> set (calls (finalizeHandler_ServeHTTP env fh r)) \<Longrightarrow> finReq_Children rq = Map.empty"
  by (auto simp: finalizeHandler_ServeHTTP_def Let_def finish_def write_json_def
        split: sum.splits option.splits prod.splits if_splits)

text \<open>
  C2 (the code at the failing input): a finalize request with a valid parent and one
  well-formed Deployment child. The finalizer is called with a request whose Children
  are empty; the sync handler, given the same request, passes the Deployment on.
\<close>

theorem C2_finalize_request_without_children:
  "calls (finalizeHandler_ServeHTTP (demo_env one_child_bodies)
       (demo_finalizeHandler example_finalize) (post_to ''finalize'' ''ok''))
     = [\<lparr>finReq_Parent = Microservice ''m1'', finReq_Children = Map.empty\<rparr>]
   \<and> map (\<lambda>rq. lookup_children (syncReq_Children rq) gvk_Deployment)
       (calls (syncHandler_ServeHTTP (demo_env one_child_bodies)
          (demo_syncHandler example_sync) (post ''ok'')))
     = [[Deployment ''a'']]"
  by (simp add: finalizeHandler_ServeHTTP_def syncHandler_ServeHTTP_def demo_defs
        demo_more_defs post_to_def decodeChild_def lookup_children_def Let_def finish_def
        write_json_def KeyForGVK_def)

text \<open>
  For comparison: the earlier sync handler rejects a parent of the wrong type in the
  same way, and copies the \<open>Finalized\<close> field of the user's response into the wire struct;
  the sync handler never sets it.
\<close>

lemma earlier_sync_type_mismatch:
  "json_Decode (Body r) = Inr rawReq \<Longrightarrow> esh_decoder sh (erawReq_Parent rawReq) = Inr (p, pgvk)
     \<Longrightarrow> \<not> esh_P sh p
     \<Longrightarrow> status_code (response (earlier_syncHandler_ServeHTTP json_Decode env sh r)) = Some 400
       \<and> calls (earlier_syncHandler_ServeHTTP json_Decode env sh r) = []"
  by (simp add: earlier_syncHandler_ServeHTTP_def finish_def writeError_def Let_def)

lemma earlier_sync_propagates_finalized:
  "response (earlier_syncHandler_ServeHTTP json_Decode env sh r) = HttpJSON payload \<Longrightarrow>
     \<exists>req resp. calls (earlier_syncHandler_ServeHTTP json_Decode env sh r) = [req]
        \<and> esh_handler sh (esh_scheme sh) req = Inr (Some resp)
        \<and> rawResp_Finalized payload = compResp_Finalized resp
        \<and> esh_encoder sh (compResp_Status resp) = Inr (rawResp_Status payload)
        \<and> encodeChildren (esh_encoder sh) (compResp_Children resp) Map.empty
             = Inr (rawResp_Children payload)"
  by (auto simp: earlier_syncHandler_ServeHTTP_def Let_def finish_def write_json_def writeError_def
        split: sum.splits option.splits prod.splits if_splits)

lemma sync_never_sets_finalized:
  "response (syncHandler_ServeHTTP env sh r) = HttpJSON payload \<Longrightarrow> \<not> rawResp_Finalized payload"
  by (auto simp: syncHandler_ServeHTTP_def Let_def finish_def write_json_def writeError_def
        split: sum.splits option.splits prod.splits if_splits)

lemma finalize_hands_over_the_struct:
  "response (finalizeHandler_ServeHTTP env fh r) = HttpJSON payload \<Longrightarrow>
     \<exists>rq. calls (finalizeHandler_ServeHTTP env fh r) = [rq]
        \<and> fh_finalizer fh (fh_scheme fh) rq = Inr payload
        \<and> json_Encode_finalize env payload = None"
  by (auto simp: finalizeHandler_ServeHTTP_def Let_def finish_def write_json_def writeError_def
        split: sum.splits option.splits prod.splits if_splits)

lemma finalize_writes_no_response:
  "json_Encode_finalize env = encoding_json_of_FinalizeResponse \<Longrightarrow>
     response (finalizeHandler_ServeHTTP env fh r) \<noteq> HttpJSON (Some resp)"
  using finalize_hands_over_the_struct [of env fh r "Some resp"]
  by (auto simp: encoding_json_of_FinalizeResponse_def)

text \<open>
  C3 (the code at the failing input): the finalizer returns \<open>Finalized = true\<close> and one
  Service. The finalize handler gives the JSON encoder the finalizer's own struct, which
  has no JSON tags and whose children are typed objects under a struct key; the encoder
  rejects it, the error is logged, and no response with a \<open>finalized\<close> member is
  written. The sync handler, for comparison, builds the tagged \<open>rawCompositeResponse\<close>
  with the encoded status and the encoded children under their KeyForGVK keys (and
  leaves its \<open>Finalized\<close> field false).
\<close>

theorem C3_finalize_response_not_encoded:
  "fh_finalizer (demo_finalizeHandler finalized_with_service) demo_scheme
       \<lparr>finReq_Parent = Microservice ''m1'', finReq_Children = Map.empty\<rparr>
     = Inr (Some \<lparr>finResp_Status = Microservice ''m1'',
                  finResp_Children = [(gvk_Service, [Service ''m1-svc''])],
                  finResp_Finalized = True\<rparr>)
   \<and> response (finalizeHandler_ServeHTTP (demo_env one_child_bodies)
       (demo_finalizeHandler finalized_with_service) (post_to ''finalize'' ''ok''))
     = HttpUnencoded
   \<and> logged (finalizeHandler_ServeHTTP (demo_env one_child_bodies)
       (demo_finalizeHandler finalized_with_service) (post_to ''finalize'' ''ok''))
     = [\<lparr>level = LevelError, message = ''Finalize error: unable to encode response'',
         attrs = [(''error'',
           ''json: unsupported type: map[schema.GroupVersionKind][]client.Object'')]\<rparr>]
   \<and> response (syncHandler_ServeHTTP (demo_env one_child_bodies)
       (demo_syncHandler example_sync) (post ''ok''))
     = HttpJSON \<lparr>rawResp_Status = ''ms:m1'',
                 rawResp_Children = [''apps/v1/Deployment'' \<mapsto> [''dep:m1-deploy''],
                                     ''v1/Service'' \<mapsto> [''svc:m1-svc'']],
                 rawResp_Finalized = False\<rparr>"
  by (simp add: finalizeHandler_ServeHTTP_def syncHandler_ServeHTTP_def demo_defs
        demo_more_defs post_to_def finalized_with_service_def decodeChild_def
        lookup_children_def Let_def finish_def write_json_def KeyForGVK_def)

section \<open>Shutdown\<close>

lemma registered_server: "hs_server (registered text path gvr hs) = hs_server hs"
  by (simp add: registered_def)

lemma mux_Handle_server: "mux_Handle pattern h hs = Some hs' \<Longrightarrow> hs_server hs' = hs_server hs"
  by (auto simp: mux_Handle_def split: if_splits)

lemma apply_options_server:
  "(\<And>opt hs hs'. opt \<in> set opts \<Longrightarrow> opt hs = Some hs' \<Longrightarrow> hs_server hs' = hs_server hs)
     \<Longrightarrow> apply_options opts hs = Some hs' \<Longrightarrow> hs_server hs' = hs_server hs"
proof (induction opts arbitrary: hs)
  case Nil
  then show ?case by simp
next
  case (Cons opt opts)
  from Cons.prems(2) obtain hs1 where o: "opt hs = Some hs1" and r: "apply_options opts hs1 = Some hs'"
    by (auto split: option.splits)
  from Cons.prems(1) [of opt hs hs1] o have "hs_server hs1 = hs_server hs" by simp
  moreover have "hs_server hs' = hs_server hs1"
    by (rule Cons.IH [OF _ r]) (use Cons.prems(1) in auto)
  ultimately show ?case by simp
qed

lemma exported_keeps_server:
  "exported opt \<Longrightarrow> opt hs = Some hs' \<Longrightarrow> hs_server hs' = hs_server hs"
proof (induction arbitrary: hs hs' rule: exported.induct)
  case (1 a)
  then show ?case by (auto simp: Addr_def)
next
  case (2 lg)
  then show ?case by (auto simp: Logger_def)
next
  case (3 P gvr syncer)
  then show ?case
    by (auto simp: SyncHook_def Let_def registered_server split: option.splits
          dest: mux_Handle_server)
next
  case (4 P gvr finalizer)
  then show ?case
    by (auto simp: FinalizeHook_def Let_def registered_server split: option.splits
          dest: mux_Handle_server)
next
  case (5 P gvr customizer)
  then show ?case
    by (auto simp: CustomizeHook_def Let_def registered_server split: option.splits
          dest: mux_Handle_server)
next
  case (6 hooks)
  from 6(2) have a: "apply_options hooks hs = Some hs'" by (simp add: CompositeController_def)
  show ?case by (rule apply_options_server [OF _ a]) (use 6(1) in blast)
qed

lemma NewHookServer_not_started:
  assumes "\<forall>opt\<in>set opts. exported opt" and "NewHookServer lg scheme opts = Some hs"
  shows "hs_server hs = None"
proof -
  from assms(2) have "hs_server hs = hs_server
       \<lparr>hs_addr = '':8080'', hs_scheme = scheme, hs_mux = [], hs_server = None,
        hs_logger = lg, hs_debug = False, hs_log = []\<rparr>"
    unfolding NewHookServer_def
    by (rule apply_options_server [rotated]) (use assms(1) exported_keeps_server in blast)
  then show ?thesis by simp
qed

text \<open>
  C10: on a HookServer that has no underlying HTTP server, Shutdown returns nil and
  leaves the server as it was, nothing logged, whatever the context; such is every
  server that \<open>NewHookServer\<close> made from the package's options and on which
  \<open>ListenAndServe\<close> has not been called.
\<close>

theorem C10_shutdown_before_start:
  "(hs_server hs = None \<longrightarrow> Shutdown server_Shutdown ctx hs = (None, hs))
   \<and> ((\<forall>opt\<in>set opts. exported opt) \<and> NewHookServer lg scheme opts = Some hs'
        \<longrightarrow> Shutdown server_Shutdown ctx hs' = (None, hs'))"
  using NewHookServer_not_started [of opts lg scheme hs'] by (auto simp: Shutdown_def)

theorem C10_shutdown_before_start_witness:
  "(\<exists>hs. NewHookServer quiet demo_scheme
            [Addr '':9090'', CompositeController [SyncHook is_Microservice microservices example_sync]]
          = Some hs
        \<and> hs_server hs = None
        \<and> map fst (hs_mux hs) = [''POST /hooks/sync/microservices.example.com/v1alpha1'']
        \<and> Shutdown (\<lambda>ctx srv. Some ''context deadline exceeded'') () hs = (None, hs))"
proof -
  let ?opts = "[Addr '':9090'',
      CompositeController [SyncHook is_Microservice microservices example_sync]]
        :: demo_object Option list"
  obtain hs where hs: "NewHookServer quiet demo_scheme ?opts = Some hs"
    and mux: "map fst (hs_mux hs) = [''POST /hooks/sync/microservices.example.com/v1alpha1'']"
    and srv: "hs_server hs = None"
    by (simp add: NewHookServer_def Addr_def CompositeController_def SyncHook_def mux_Handle_def
          registered_def hook_path_def GroupResource_String_def microservices_def Let_def)
  have e: "\<forall>opt\<in>set ?opts. exported opt"
    by (auto intro!: exported.intros)
  from C10_shutdown_before_start [of hs "\<lambda>ctx srv. Some ''context deadline exceeded''" "()"
      ?opts quiet demo_scheme hs] e hs srv
  have sd: "Shutdown (\<lambda>ctx srv. Some ''context deadline exceeded'') () hs = (None, hs)"
    by blast
  show ?thesis
    by (rule exI [of _ hs]) (intro conjI hs srv mux sd)
qed

end
